theory Spec2Isabelle
  imports Main "HOL-Library.Word" "HOL-Library.Sublist"
begin

unbundle bit_operations_syntax

section \<open>getenv.c: reading an environment variable of a running process\<close>

text \<open>
  A shallow embedding of \<^verbatim>\<open>src/getenv.c\<close>. The program is one C file: the mapping
  inspector \<^verbatim>\<open>find_library\<close>, the text writer \<^verbatim>\<open>poke_text\<close>, the wait helpers
  \<^verbatim>\<open>do_wait\<close> and \<^verbatim>\<open>singlestep\<close>, \<^verbatim>\<open>compute_jmp\<close>, the engine \<^verbatim>\<open>getenv_process\<close>
  and \<^verbatim>\<open>main\<close>. Everything the program does to the outside goes through system calls
  (\<^verbatim>\<open>ptrace\<close>, \<^verbatim>\<open>wait\<close>, \<^verbatim>\<open>waitpid\<close>), the \<^verbatim>\<open>/proc\<close> file system and standard
  output; the model makes each of them explicit.
\<close>

subsection \<open>Machine words and bytes\<close>

type_synonym byte = "8 word"
type_synonym addr = "64 word"
type_synonym pid_t = int

text \<open>
  x86_64 is little-endian. \<open>load_le\<close> is the integer whose memory image is the given
  bytes (what \<^verbatim>\<open>memmove(&poke_data, new_text + copied, sizeof(poke_data))\<close> leaves in
  \<^verbatim>\<open>poke_data\<close>), \<open>store_le n\<close> the first \<open>n\<close> bytes of the memory image of an integer.
\<close>

definition load_le :: "byte list \<Rightarrow> 'a::len word" where
  "load_le bs = foldr (\<lambda>b w. ucast b OR push_bit 8 w) bs 0"

definition store_le :: "nat \<Rightarrow> 'a::len word \<Rightarrow> byte list" where
  "store_le n w = map (\<lambda>i. ucast (drop_bit (8 * i) w)) [0..<n]"

subsection \<open>C strings and the library functions used on them\<close>

text \<open>
  A C string is modelled as the list of its characters before the terminating NUL.
  \<open>strstr\<close>, \<open>isspace\<close> and \<open>strtol\<close> are functions of the C library, which is not part
  of the repository; they are modelled from the C standard.
\<close>

text \<open>\<^verbatim>\<open>strstr(haystack, needle)\<close>: the suffix of the haystack that starts at the first
  occurrence of the needle, \<open>None\<close> for the null pointer.\<close>

fun strstr :: "string \<Rightarrow> string \<Rightarrow> string option" where
  "strstr [] needle = (if needle = [] then Some [] else None)"
| "strstr (c # cs) needle =
     (if prefix needle (c # cs) then Some (c # cs) else strstr cs needle)"

definition isspace :: "char \<Rightarrow> bool" where
  "isspace c \<longleftrightarrow> c = CHR '' '' \<or> (9 \<le> (of_char c :: nat) \<and> (of_char c :: nat) \<le> 13)"

text \<open>The value of a digit of \<^verbatim>\<open>strtol\<close>: decimal digits, then letters of either case
  from ten on.\<close>

definition digit_val :: "char \<Rightarrow> nat option" where
  "digit_val c =
     (let n = (of_char c :: nat) in
      if 48 \<le> n \<and> n \<le> 57 then Some (n - 48)
      else if 97 \<le> n \<and> n \<le> 122 then Some (n - 87)
      else if 65 \<le> n \<and> n \<le> 90 then Some (n - 55)
      else None)"

definition is_digit :: "nat \<Rightarrow> char \<Rightarrow> bool" where
  "is_digit base c = (case digit_val c of None \<Rightarrow> False | Some v \<Rightarrow> v < base)"

definition LONG_MAX :: int where "LONG_MAX = 2 ^ 63 - 1"
definition LONG_MIN :: int where "LONG_MIN = - (2 ^ 63)"

text \<open>
  \<^verbatim>\<open>strtol(s, NULL, base)\<close> for base 10 or 16: leading white space, an optional sign, for
  base 16 an optional \<^verbatim>\<open>0x\<close> before a hexadecimal digit, then the longest run of digits.
  The result saturates at \<open>LONG_MIN\<close> and \<open>LONG_MAX\<close>; the flag says that it did, which is
  when the library sets \<^verbatim>\<open>errno\<close> to \<^verbatim>\<open>ERANGE\<close>.
\<close>

definition strtol :: "string \<Rightarrow> nat \<Rightarrow> int \<times> bool" where
  "strtol s base =
     (let s1 = dropWhile isspace s;
          neg = (case s1 of [] \<Rightarrow> False | c # _ \<Rightarrow> c = CHR ''-'');
          s2 = (case s1 of [] \<Rightarrow> [] | c # r \<Rightarrow> if c = CHR ''-'' \<or> c = CHR ''+'' then r else s1);
          s3 = (case s2 of
                  z # x # h # r \<Rightarrow>
                    if base = 16 \<and> z = CHR ''0'' \<and> (x = CHR ''x'' \<or> x = CHR ''X'') \<and> is_digit 16 h
                    then h # r else s2
                | _ \<Rightarrow> s2);
          n = foldl (\<lambda>a c. a * int base + int (the (digit_val c))) 0 (takeWhile (is_digit base) s3);
          v = (if neg then - n else n)
      in if v > LONG_MAX then (LONG_MAX, True)
         else if v < LONG_MIN then (LONG_MIN, True)
         else (v, False))"

text \<open>
  \<^verbatim>\<open>s[i]\<close> for a C string \<open>s\<close>: a character of the string, the terminating NUL at
  \<open>i = strlen(s)\<close>, and beyond it a byte that does not belong to the string (\<open>None\<close>).
\<close>

definition char_at :: "string \<Rightarrow> nat \<Rightarrow> char option" where
  "char_at s i =
     (if i < length s then Some (s ! i) else if i = length s then Some (CHR 0x00) else None)"

subsection \<open>Results of C code\<close>

text \<open>
  A C function returns a value, ends the process by \<^verbatim>\<open>exit(n)\<close> or \<^verbatim>\<open>abort()\<close>, or has
  no defined behaviour (a null stream passed to \<^verbatim>\<open>getline\<close>, a read outside an object).
\<close>

datatype 'a c_result = Ret 'a | Exit int | Abort | Undefined

subsection \<open>The mapping inspector: \<^verbatim>\<open>find_library\<close> (lines 24-50)\<close>

definition text_area :: string where
  "text_area = '' r-xp ''"

definition libc_string :: string where
  "libc_string = ''/libc''"

text \<open>
  The \<^verbatim>\<open>while (getline(...) >= 0)\<close> loop over the lines of the maps file, each line a C
  string (with its newline). The three conjuncts of the \<^verbatim>\<open>if\<close> are evaluated left to
  right as \<^verbatim>\<open>&&\<close> does. The character tested is \<^verbatim>\<open>pos[strlen(libc_string)]\<close>, whatever
  \<^verbatim>\<open>libname\<close> is. The result is \<^verbatim>\<open>(void *)strtol(line, NULL, 16)\<close>, and the null
  pointer (address 0) when the lines run out.
\<close>

fun find_library_lines :: "string list \<Rightarrow> string \<Rightarrow> addr c_result" where
  "find_library_lines [] libname = Ret 0"
| "find_library_lines (line # rest) libname =
     (case strstr line libname of
        None \<Rightarrow> find_library_lines rest libname
      | Some pos \<Rightarrow>
          if strstr line text_area = None then find_library_lines rest libname
          else (case char_at pos (length libc_string) of
                  None \<Rightarrow> Undefined
                | Some c \<Rightarrow>
                    if (of_char c :: nat) < of_char (CHR ''a'') \<or> (of_char c :: nat) > of_char (CHR ''z'')
                    then Ret (word_of_int (fst (strtol line 16)))
                    else find_library_lines rest libname))"

text \<open>
  The \<^verbatim>\<open>/proc\<close> file system is a parameter: \<open>procfs pid\<close> is the list of lines of
  \<^verbatim>\<open>/proc/<pid>/maps\<close>, or \<open>None\<close> when \<^verbatim>\<open>fopen\<close> fails. The source does not test the
  stream, so \<^verbatim>\<open>getline\<close> is then called on a null pointer.
\<close>

definition find_library :: "(pid_t \<Rightarrow> string list option) \<Rightarrow> pid_t \<Rightarrow> string \<Rightarrow> addr c_result" where
  "find_library procfs pid libname =
     (case procfs pid of
        None \<Rightarrow> Undefined
      | Some lines \<Rightarrow> find_library_lines lines libname)"

subsection \<open>The traced process and the kernel\<close>

text \<open>
  \<^verbatim>\<open>struct user_regs_struct\<close> of \<^verbatim>\<open><sys/user.h>\<close> on x86_64: the general-purpose
  register file that \<^verbatim>\<open>PTRACE_GETREGS\<close> reads and \<^verbatim>\<open>PTRACE_SETREGS\<close> writes, in the
  order of the header.
\<close>

record user_regs_struct =
  r15 :: "64 word"
  r14 :: "64 word"
  r13 :: "64 word"
  r12 :: "64 word"
  rbp :: "64 word"
  rbx :: "64 word"
  r11 :: "64 word"
  r10 :: "64 word"
  r9 :: "64 word"
  r8 :: "64 word"
  rax :: "64 word"
  rcx :: "64 word"
  rdx :: "64 word"
  rsi :: "64 word"
  rdi :: "64 word"
  orig_rax :: "64 word"
  rip :: "64 word"
  cs :: "64 word"
  eflags :: "64 word"
  rsp :: "64 word"
  ss :: "64 word"
  fs_base :: "64 word"
  gs_base :: "64 word"
  ds :: "64 word"
  es :: "64 word"
  fs :: "64 word"
  gs :: "64 word"

text \<open>The traced process, stopped: its registers and its memory, byte by byte.\<close>

record target =
  regs :: user_regs_struct
  mem :: "addr \<Rightarrow> byte"

text \<open>The system calls the program issues, with their arguments.\<close>

datatype syscall =
    PTRACE_ATTACH pid_t
  | PTRACE_DETACH pid_t
  | PTRACE_GETREGS pid_t
  | PTRACE_SETREGS pid_t user_regs_struct
  | PTRACE_PEEKTEXT pid_t addr
  | PTRACE_PEEKDATA pid_t addr
  | PTRACE_POKETEXT pid_t addr "64 word"
  | PTRACE_SINGLESTEP pid_t
  | PTRACE_CONT pid_t
  | WAITPID pid_t
  | WAIT

text \<open>
  What the program cannot decide is a parameter, the \<open>kernel\<close>:
  \<^item> \<open>fails n c\<close>: the system call \<open>c\<close>, issued as the \<open>n\<close>-th call of the run
    (counting from 0), fails;
  \<^item> \<open>stops n t\<close>: the wait status that the \<open>n\<close>-th call, a successful \<^verbatim>\<open>wait\<close>, reports
    and the state in which the target, resumed in state \<open>t\<close>, has stopped again;
  \<^item> \<open>procfs\<close>: the maps files; \<open>getpid\<close>: the program's own process identifier;
    \<open>our_getenv\<close>: the address of \<^verbatim>\<open>getenv\<close> in the program's own address space;
  \<^item> \<open>stack_garbage\<close>: the indeterminate bytes that the uninitialised arrays
    \<^verbatim>\<open>old_word\<close> (indices 0 to 7) and \<^verbatim>\<open>new_word\<close> (indices 8 to 15) hold on entry.
\<close>

record kernel =
  fails :: "nat \<Rightarrow> syscall \<Rightarrow> bool"
  stops :: "nat \<Rightarrow> target \<Rightarrow> int \<times> target"
  procfs :: "pid_t \<Rightarrow> string list option"
  getpid :: pid_t
  our_getenv :: addr
  stack_garbage :: "nat \<Rightarrow> byte"

text \<open>
  The state of a run: the target (given as it is when it has stopped after the attach),
  the system calls issued so far, oldest first, the bytes written to standard output, and
  how many times the message \<^verbatim>\<open>invalid len, not a multiple of 8\<close> of \<^verbatim>\<open>poke_text\<close>
  (line 59) has been written to standard error. The other diagnostics on standard error
  (\<^verbatim>\<open>perror\<close>, the remaining \<^verbatim>\<open>fprintf(stderr, ...)\<close>, all of \<^verbatim>\<open>check_yama\<close>) change
  nothing the model observes and are left out.
\<close>

record world =
  tgt :: target
  trace :: "syscall list"
  out :: "byte list"
  invalid_len :: nat

text \<open>Issuing a system call: it is appended to the trace; the result says whether it
  failed.\<close>

definition issue :: "kernel \<Rightarrow> syscall \<Rightarrow> world \<Rightarrow> bool \<times> world" where
  "issue K c w = (fails K (length (trace w)) c, w\<lparr>trace := trace w @ [c]\<rparr>)"

text \<open>The eight bytes of target memory at an address, and memory with eight bytes
  replaced. Addresses wrap around at \<open>2 ^ 64\<close>.\<close>

definition read8 :: "(addr \<Rightarrow> byte) \<Rightarrow> addr \<Rightarrow> byte list" where
  "read8 m a = map (\<lambda>i. m (a + of_nat i)) [0..<8]"

definition write8 :: "(addr \<Rightarrow> byte) \<Rightarrow> addr \<Rightarrow> byte list \<Rightarrow> (addr \<Rightarrow> byte)" where
  "write8 m a bs = (\<lambda>x. if x - a < 8 then bs ! unat (x - a) else m x)"

text \<open>\<^verbatim>\<open>ptrace(PTRACE_GETREGS, pid, NULL, &r)\<close>: \<open>None\<close> when the call fails.\<close>

definition ptrace_getregs :: "kernel \<Rightarrow> pid_t \<Rightarrow> world \<Rightarrow> user_regs_struct option \<times> world" where
  "ptrace_getregs K pid w =
     (case issue K (PTRACE_GETREGS pid) w of
        (True, w1) \<Rightarrow> (None, w1)
      | (False, w1) \<Rightarrow> (Some (regs (tgt w1)), w1))"

text \<open>\<^verbatim>\<open>ptrace(PTRACE_SETREGS, pid, NULL, &r)\<close>: the flag says that the call failed.\<close>

definition ptrace_setregs :: "kernel \<Rightarrow> pid_t \<Rightarrow> user_regs_struct \<Rightarrow> world \<Rightarrow> bool \<times> world" where
  "ptrace_setregs K pid r w =
     (case issue K (PTRACE_SETREGS pid r) w of
        (True, w1) \<Rightarrow> (True, w1)
      | (False, w1) \<Rightarrow> (False, w1\<lparr>tgt := (tgt w1)\<lparr>regs := r\<rparr>\<rparr>))"

text \<open>\<^verbatim>\<open>ptrace(PTRACE_PEEKTEXT, pid, a, NULL)\<close> with \<^verbatim>\<open>errno\<close>: the word at \<open>a\<close>, or \<open>None\<close>
  when the call fails (it then returns -1 and sets \<^verbatim>\<open>errno\<close>).\<close>

definition ptrace_peektext :: "kernel \<Rightarrow> pid_t \<Rightarrow> addr \<Rightarrow> world \<Rightarrow> 64 word option \<times> world" where
  "ptrace_peektext K pid a w =
     (case issue K (PTRACE_PEEKTEXT pid a) w of
        (True, w1) \<Rightarrow> (None, w1)
      | (False, w1) \<Rightarrow> (Some (load_le (read8 (mem (tgt w1)) a)), w1))"

text \<open>\<^verbatim>\<open>ptrace(PTRACE_PEEKDATA, pid, a, NULL)\<close> read without \<^verbatim>\<open>errno\<close>: the word at \<open>a\<close>, or
  -1 when the call fails.\<close>

definition ptrace_peekdata :: "kernel \<Rightarrow> pid_t \<Rightarrow> addr \<Rightarrow> world \<Rightarrow> 64 word \<times> world" where
  "ptrace_peekdata K pid a w =
     (case issue K (PTRACE_PEEKDATA pid a) w of
        (True, w1) \<Rightarrow> (- 1, w1)
      | (False, w1) \<Rightarrow> (load_le (read8 (mem (tgt w1)) a), w1))"

text \<open>\<^verbatim>\<open>ptrace(PTRACE_POKETEXT, pid, a, v)\<close>: the flag says that the call failed.\<close>

definition ptrace_poketext :: "kernel \<Rightarrow> pid_t \<Rightarrow> addr \<Rightarrow> 64 word \<Rightarrow> world \<Rightarrow> bool \<times> world" where
  "ptrace_poketext K pid a v w =
     (case issue K (PTRACE_POKETEXT pid a v) w of
        (True, w1) \<Rightarrow> (True, w1)
      | (False, w1) \<Rightarrow>
          (False, w1\<lparr>tgt := (tgt w1)\<lparr>mem := write8 (mem (tgt w1)) a (store_le 8 v)\<rparr>\<rparr>))"

text \<open>
  \<^verbatim>\<open>wait(&status)\<close>: \<open>None\<close> when the call fails (it returns -1); otherwise the status,
  and the target is in the state in which it stopped.
\<close>

definition wait :: "kernel \<Rightarrow> world \<Rightarrow> int option \<times> world" where
  "wait K w =
     (case issue K WAIT w of
        (True, w1) \<Rightarrow> (None, w1)
      | (False, w1) \<Rightarrow>
          (case stops K (length (trace w)) (tgt w1) of
             (status, t) \<Rightarrow> (Some status, w1\<lparr>tgt := t\<rparr>)))"

text \<open>The status macros of \<^verbatim>\<open><sys/wait.h>\<close> and the signal number of
  \<^verbatim>\<open><signal.h>\<close>, as Linux defines them.\<close>

definition WIFSTOPPED :: "int \<Rightarrow> bool" where
  "WIFSTOPPED status \<longleftrightarrow> status mod 256 = 127"

definition WSTOPSIG :: "int \<Rightarrow> int" where
  "WSTOPSIG status = (status div 256) mod 256"

definition SIGTRAP :: int where
  "SIGTRAP = 5"

subsection \<open>\<^verbatim>\<open>poke_text\<close> (lines 52-81)\<close>

text \<open>\<^verbatim>\<open>memmove(dst + off, src, n)\<close> with \<open>n\<close> the length of \<open>src\<close>: the buffer \<open>dst\<close> with
  the bytes from \<open>off\<close> on replaced.\<close>

definition memmove :: "byte list \<Rightarrow> nat \<Rightarrow> byte list \<Rightarrow> byte list" where
  "memmove dst off src = take off dst @ src @ drop (off + length src) dst"

text \<open>
  The \<^verbatim>\<open>for\<close> loop of \<^verbatim>\<open>poke_text\<close>, from \<open>copied\<close> on. \<open>old_text\<close> is \<open>None\<close> for the
  null pointer and otherwise the contents of the buffer, which the loop fills word by
  word. The results are the return value, the buffer and the world.
\<close>

function poke_text_loop ::
  "kernel \<Rightarrow> pid_t \<Rightarrow> addr \<Rightarrow> byte list \<Rightarrow> byte list option \<Rightarrow> nat \<Rightarrow> nat \<Rightarrow> world
     \<Rightarrow> int \<times> byte list option \<times> world" where
  "poke_text_loop K pid whr new_text old_text len copied w =
     (if copied < len then
        (let poke_data = (load_le (take 8 (drop copied new_text)) :: 64 word) in
         case (case old_text of
                 None \<Rightarrow> (False, None, w)
               | Some old \<Rightarrow>
                   (case ptrace_peektext K pid (whr + of_nat copied) w of
                      (None, w1) \<Rightarrow> (True, Some old, w1)
                    | (Some peek_data, w1) \<Rightarrow>
                        (False,
                         Some (memmove old copied (store_le 8 peek_data)),
                         w1))) of
           (True, old1, w1) \<Rightarrow> (- 1, old1, w1)
         | (False, old1, w1) \<Rightarrow>
             (case ptrace_poketext K pid (whr + of_nat copied) poke_data w1 of
                (True, w2) \<Rightarrow> (- 1, old1, w2)
              | (False, w2) \<Rightarrow> poke_text_loop K pid whr new_text old1 len (copied + 8) w2))
      else (0, old_text, w))"
  by pat_completeness auto
termination
  by (relation "measure (\<lambda>(K, pid, whr, new_text, old_text, len, copied, w). len - copied)") auto

text \<open>
  \<^verbatim>\<open>poke_text(pid, where, new_text, old_text, len)\<close>: a length that is not a multiple of
  \<^verbatim>\<open>sizeof(void *)\<close> is refused before the loop, with the message of line 59.
\<close>

definition poke_text ::
  "kernel \<Rightarrow> pid_t \<Rightarrow> addr \<Rightarrow> byte list \<Rightarrow> byte list option \<Rightarrow> nat \<Rightarrow> world
     \<Rightarrow> int \<times> byte list option \<times> world" where
  "poke_text K pid whr new_text old_text len w =
     (if len mod 8 \<noteq> 0 then (- 1, old_text, w\<lparr>invalid_len := invalid_len w + 1\<rparr>)
      else poke_text_loop K pid whr new_text old_text len 0 w)"

subsection \<open>\<^verbatim>\<open>do_wait\<close>, \<^verbatim>\<open>singlestep\<close> and \<^verbatim>\<open>compute_jmp\<close> (lines 83-137)\<close>

definition do_wait :: "kernel \<Rightarrow> world \<Rightarrow> int \<times> world" where
  "do_wait K w =
     (case wait K w of
        (None, w1) \<Rightarrow> (- 1, w1)
      | (Some status, w1) \<Rightarrow>
          if WIFSTOPPED status then
            (if WSTOPSIG status = SIGTRAP then (0, w1) else (- 1, w1))
          else (- 1, w1))"

definition singlestep :: "kernel \<Rightarrow> pid_t \<Rightarrow> world \<Rightarrow> int \<times> world" where
  "singlestep K pid w =
     (case issue K (PTRACE_SINGLESTEP pid) w of
        (True, w1) \<Rightarrow> (- 1, w1)
      | (False, w1) \<Rightarrow> do_wait K w1)"

definition REL32_SZ :: int where
  "REL32_SZ = 5"

definition INT_MAX :: int where "INT_MAX = 2 ^ 31 - 1"
definition INT_MIN :: int where "INT_MIN = - (2 ^ 31)"

definition INT64_MAX :: int where "INT64_MAX = 2 ^ 63 - 1"
definition INT64_MIN :: int where "INT64_MIN = - (2 ^ 63)"

text \<open>
  \<^verbatim>\<open>compute_jmp(from, to)\<close>: the displacement as a 32-bit integer; when it does not fit
  the function calls \<^verbatim>\<open>exit(1)\<close> itself. The two pointers are read as signed 64-bit
  integers, and \<^verbatim>\<open>delta\<close> is computed in \<^verbatim>\<open>int64_t\<close>, from left to right: a difference
  outside that type is a signed overflow, which has no defined behaviour in C (a
  compiler that wraps the difference around makes the function go on with the wrapped
  value).
\<close>

definition compute_jmp :: "addr \<Rightarrow> addr \<Rightarrow> 32 word c_result" where
  "compute_jmp from to =
     (let diff = sint to - sint from in
      if diff < INT64_MIN \<or> diff > INT64_MAX then Undefined
      else
       (let delta = diff - REL32_SZ in
        if delta < INT64_MIN then Undefined
        else if delta < INT_MIN \<or> delta > INT_MAX then Exit 1
        else Ret (word_of_int delta)))"

subsection \<open>The engine: \<^verbatim>\<open>getenv_process\<close> (lines 139-440)\<close>

text \<open>
  \<^verbatim>\<open>getenv_process\<close> is one long function. It is split here into six consecutive
  parts; each either ends the function (\<open>Inl\<close>, with the result) or hands the values
  the rest needs to the next part (\<open>Inr\<close>). The local variable \<^verbatim>\<open>rip\<close> of the source is
  called \<open>base_rip\<close>, since \<open>rip\<close> is also the register of that name.
\<close>

definition PAGE_SIZE :: "64 word" where
  "PAGE_SIZE = 4096"

text \<open>The label \<^verbatim>\<open>fail:\<close> (lines 434-439).\<close>

definition fail :: "kernel \<Rightarrow> pid_t \<Rightarrow> addr \<Rightarrow> byte list \<Rightarrow> world \<Rightarrow> int c_result \<times> world" where
  "fail K pid base_rip old_word w =
     (case poke_text K pid base_rip old_word None 8 w of
        (_, _, w1) \<Rightarrow>
          (case issue K (PTRACE_DETACH pid) w1 of
             (_, w2) \<Rightarrow> (Ret 1, w2)))"

text \<open>Lines 140-159: attach, wait for the stop, read the registers into
  \<^verbatim>\<open>oldregs\<close>.\<close>

definition attach_stage ::
  "kernel \<Rightarrow> pid_t \<Rightarrow> world \<Rightarrow> (int c_result + user_regs_struct) \<times> world" where
  "attach_stage K pid w =
     (case issue K (PTRACE_ATTACH pid) w of
        (True, w1) \<Rightarrow> (Inl (Ret (- 1)), w1)
      | (False, w1) \<Rightarrow>
          (case issue K (WAITPID pid) w1 of
             (True, w2) \<Rightarrow> (Inl (Ret (- 1)), w2)
           | (False, w2) \<Rightarrow>
               (case ptrace_getregs K pid w2 of
                  (None, w3) \<Rightarrow>
                    (case issue K (PTRACE_DETACH pid) w3 of
                       (_, w4) \<Rightarrow> (Inl (Ret (- 1)), w4))
                | (Some oldregs, w3) \<Rightarrow> (Inr oldregs, w3))))"

text \<open>
  Lines 160-235: the remote \<^verbatim>\<open>mmap\<close>. The results are \<^verbatim>\<open>old_word\<close>, \<^verbatim>\<open>new_word\<close>,
  \<^verbatim>\<open>mmap_memory\<close> and \<^verbatim>\<open>newregs\<close>. \<^verbatim>\<open>PROT_READ | PROT_EXEC\<close> is 5 and
  \<^verbatim>\<open>MAP_PRIVATE | MAP_ANONYMOUS\<close> is \<open>0x22\<close>.
\<close>

definition mmap_stage ::
  "kernel \<Rightarrow> pid_t \<Rightarrow> user_regs_struct \<Rightarrow> world
     \<Rightarrow> (int c_result + byte list \<times> byte list \<times> addr \<times> user_regs_struct) \<times> world" where
  "mmap_stage K pid oldregs w =
     (let base_rip = rip oldregs;
          newregs = oldregs\<lparr>rax := 9, rdi := 0, rsi := PAGE_SIZE, rdx := 5, r10 := 0x22,
                             r8 := - 1, r9 := 0\<rparr>;
          old_word0 = map (stack_garbage K) [0..<8];
          new_word = [0x0f, 0x05, 0xff, 0xe0] @ map (stack_garbage K) [12..<16]
      in (case poke_text K pid base_rip new_word (Some old_word0) 8 w of
            (rc, old_text, w1) \<Rightarrow>
              (let old_word = (case old_text of None \<Rightarrow> old_word0 | Some b \<Rightarrow> b) in
               if rc \<noteq> 0 then apfst Inl (fail K pid base_rip old_word w1)
               else
                (case ptrace_setregs K pid newregs w1 of
                   (True, w2) \<Rightarrow> apfst Inl (fail K pid base_rip old_word w2)
                 | (False, w2) \<Rightarrow>
                    (case singlestep K pid w2 of
                       (rc1, w3) \<Rightarrow>
                         if rc1 \<noteq> 0 then apfst Inl (fail K pid base_rip old_word w3)
                         else
                          (case ptrace_getregs K pid w3 of
                             (None, w4) \<Rightarrow> (Inl (Ret (- 1)), w4)
                           | (Some newregs1, w4) \<Rightarrow>
                              (let mmap_memory = rax newregs1 in
                               if mmap_memory = - 1
                               then apfst Inl (fail K pid base_rip old_word w4)
                               else
                                (case singlestep K pid w4 of
                                   (rc2, w5) \<Rightarrow>
                                     if rc2 \<noteq> 0 then apfst Inl (fail K pid base_rip old_word w5)
                                     else
                                      (case ptrace_getregs K pid w5 of
                                         (None, w6) \<Rightarrow>
                                           apfst Inl (fail K pid base_rip old_word w6)
                                       | (Some newregs2, w6) \<Rightarrow>
                                           if rip newregs2 = mmap_memory
                                           then (Inr (old_word, new_word, mmap_memory, newregs2), w6)
                                           else apfst Inl (fail K pid base_rip old_word w6))))))))))"

text \<open>The loop \<^verbatim>\<open>while (blocksize < memsize) blocksize <<= 1\<close> (line 278). The sizes are
  natural numbers: \<^verbatim>\<open>memsize\<close> is six more than the length of a string of the program's
  own memory, far below the \<open>2 ^ 63\<close> at which a \<^verbatim>\<open>size_t\<close> shift would wrap.\<close>

partial_function (option) blocksize_loop :: "nat \<Rightarrow> nat \<Rightarrow> nat option" where
  "blocksize_loop blocksize memsize =
     (if blocksize < memsize then blocksize_loop (2 * blocksize) memsize else Some blocksize)"

declare blocksize_loop.simps [code]

text \<open>
  Lines 255-336: locate \<^verbatim>\<open>getenv\<close> in the target, build the trampoline in \<^verbatim>\<open>new_text\<close>,
  write it to the scratch page, set the registers up, continue until the trap and read
  the registers. \<^verbatim>\<open>offset\<close> is 6 when the registers are set up. The result of
  \<^verbatim>\<open>ptrace(PTRACE_CONT, ...)\<close> is not looked at.
\<close>

definition call_stage ::
  "kernel \<Rightarrow> pid_t \<Rightarrow> string \<Rightarrow> addr \<Rightarrow> byte list \<Rightarrow> byte list \<Rightarrow> addr \<Rightarrow> user_regs_struct
     \<Rightarrow> world \<Rightarrow> ((int c_result + user_regs_struct) \<times> world) option" where
  "call_stage K pid env base_rip old_word new_word mmap_memory newregs w =
     (case find_library (procfs K) pid libc_string of
        Ret their_libc \<Rightarrow>
          (case find_library (procfs K) (getpid K) libc_string of
             Ret our_libc \<Rightarrow>
               (let their_getenv = their_libc + (our_getenv K - our_libc);
                    memsize = length env + 6
                in (case blocksize_loop 32 memsize of
                      None \<Rightarrow> None
                    | Some blocksize \<Rightarrow>
                       (case compute_jmp mmap_memory their_getenv of
                          Ret getenv_delta \<Rightarrow>
                            (let new_text =
                                   memmove
                                     (memmove
                                        (memmove
                                           (memmove (replicate blocksize 0) 0 [0xe8])
                                           1 (store_le 4 getenv_delta))
                                        5 [0xcc])
                                     6 (map of_char env)
                             in (case poke_text K pid mmap_memory new_text None blocksize w of
                                   (rc, _, w1) \<Rightarrow>
                                     if rc \<noteq> 0
                                     then Some (apfst Inl (fail K pid base_rip old_word w1))
                                     else
                                      (case poke_text K pid base_rip new_word None 8 w1 of
                                         (rc1, _, w2) \<Rightarrow>
                                           if rc1 \<noteq> 0
                                           then Some (apfst Inl (fail K pid base_rip old_word w2))
                                           else
                                            (case ptrace_setregs K pid
                                                    (newregs\<lparr>rax := 0, rdi := mmap_memory + 6\<rparr>) w2 of
                                               (True, w3) \<Rightarrow>
                                                 Some (apfst Inl (fail K pid base_rip old_word w3))
                                             | (False, w3) \<Rightarrow>
                                                (case issue K (PTRACE_CONT pid) w3 of
                                                   (_, w4) \<Rightarrow>
                                                    (case do_wait K w4 of
                                                       (rc2, w5) \<Rightarrow>
                                                         if rc2 \<noteq> 0
                                                         then Some (apfst Inl
                                                                (fail K pid base_rip old_word w5))
                                                         else
                                                          (case ptrace_getregs K pid w5 of
                                                             (None, w6) \<Rightarrow>
                                                               Some (apfst Inl
                                                                 (fail K pid base_rip old_word w6))
                                                           | (Some newregs1, w6) \<Rightarrow>
                                                               Some (Inr newregs1, w6))))))))
                        | Exit n \<Rightarrow> Some (Inl (Exit n), w)
                        | Abort \<Rightarrow> Some (Inl Abort, w)
                        | Undefined \<Rightarrow> Some (Inl Undefined, w))))
           | Exit n \<Rightarrow> Some (Inl (Exit n), w)
           | Abort \<Rightarrow> Some (Inl Abort, w)
           | Undefined \<Rightarrow> Some (Inl Undefined, w))
      | Exit n \<Rightarrow> Some (Inl (Exit n), w)
      | Abort \<Rightarrow> Some (Inl Abort, w)
      | Undefined \<Rightarrow> Some (Inl Undefined, w))"

text \<open>\<^verbatim>\<open>uint32_t data = ptrace(PTRACE_PEEKDATA, pid, offs, NULL)\<close>: the low half of the
  word read, and \<open>0xFFFFFFFF\<close> when the call fails.\<close>

definition peek_uint32 :: "kernel \<Rightarrow> pid_t \<Rightarrow> addr \<Rightarrow> world \<Rightarrow> 32 word \<times> world" where
  "peek_uint32 K pid offs w = apfst ucast (ptrace_peekdata K pid offs w)"

text \<open>The test of line 342 on a \<^verbatim>\<open>uint32_t\<close>; the shifts wrap at 32 bits.\<close>

definition end_of_string :: "32 word \<Rightarrow> bool" where
  "end_of_string data \<longleftrightarrow>
     push_bit 24 data < 0x1000000 \<or> push_bit 16 data < 0x1000000 \<or>
     push_bit 8 data < 0x1000000 \<or> data < 0x1000000"

text \<open>The loop \<^verbatim>\<open>while (true)\<close> of lines 339-346, from \<^verbatim>\<open>offs\<close> on; the result is \<^verbatim>\<open>offs\<close>
  when the loop is left. \<open>None\<close>: the loop is never left.\<close>

partial_function (option) scan_loop :: "kernel \<Rightarrow> pid_t \<Rightarrow> addr \<Rightarrow> world \<Rightarrow> (addr \<times> world) option" where
  "scan_loop K pid offs w =
     (case peek_uint32 K pid offs w of
        (data, w1) \<Rightarrow>
          if end_of_string data then Some (offs + 4, w1)
          else scan_loop K pid (offs + 4) w1)"

declare scan_loop.simps [code]

text \<open>The loop of lines 350-354, with \<open>n\<close> words still to copy from \<^verbatim>\<open>offs\<close> on: the
  bytes stored into \<^verbatim>\<open>buf\<close>.\<close>

fun copy_loop :: "kernel \<Rightarrow> pid_t \<Rightarrow> nat \<Rightarrow> addr \<Rightarrow> world \<Rightarrow> byte list \<times> world" where
  "copy_loop K pid 0 offs w = ([], w)"
| "copy_loop K pid (Suc n) offs w =
     (case peek_uint32 K pid offs w of
        (data, w1) \<Rightarrow>
          (case copy_loop K pid n (offs + 4) w1 of
             (rest, w2) \<Rightarrow> (store_le 4 data @ rest, w2)))"

text \<open>
  Lines 337-357: read the string that the returned pointer names and print it.
  \<^verbatim>\<open>buf\<close> has \<^verbatim>\<open>slen + 1\<close> bytes of which the loop fills \<^verbatim>\<open>slen\<close>; \<^verbatim>\<open>printf("%s\n", buf)\<close>
  prints the bytes before the first NUL and a newline, and reads an uninitialised byte
  and then past the buffer when the \<^verbatim>\<open>slen\<close> bytes hold no NUL.
\<close>

definition read_stage ::
  "kernel \<Rightarrow> pid_t \<Rightarrow> user_regs_struct \<Rightarrow> world \<Rightarrow> ((int c_result + unit) \<times> world) option" where
  "read_stage K pid newregs w =
     (if rax newregs \<noteq> 0 then
        (case scan_loop K pid (rax newregs) w of
           None \<Rightarrow> None
         | Some (offs, w1) \<Rightarrow>
             (let slen = unat (offs - rax newregs) in
              case copy_loop K pid (slen div 4) (rax newregs) w1 of
                (buf, w2) \<Rightarrow>
                  if 0 \<in> set buf
                  then Some (Inr (), w2\<lparr>out := out w2 @ takeWhile (\<lambda>b. b \<noteq> 0) buf @ [0x0a]\<rparr>)
                  else Some (Inl Undefined, w2)))
      else Some (Inr (), w))"

text \<open>
  Lines 358-387: jump back to the original instruction pointer. \<^verbatim>\<open>rax\<close> of the working
  registers becomes \<^verbatim>\<open>rip\<close> and the registers are installed; \<^verbatim>\<open>new_word\<close>, now starting
  with \<^verbatim>\<open>ff e0\<close>, is written at \<^verbatim>\<open>newregs.rip\<close>; then one single-step, and the registers
  are read. The result of this \<^verbatim>\<open>poke_text\<close> (line 366) is not looked at.
\<close>

definition jump_back_stage ::
  "kernel \<Rightarrow> pid_t \<Rightarrow> addr \<Rightarrow> byte list \<Rightarrow> byte list \<Rightarrow> user_regs_struct \<Rightarrow> world
     \<Rightarrow> (int c_result + user_regs_struct) \<times> world" where
  "jump_back_stage K pid base_rip old_word new_word newregs w =
     (let newregs1 = newregs\<lparr>rax := base_rip\<rparr> in
      (case ptrace_setregs K pid newregs1 w of
         (True, w1) \<Rightarrow> apfst Inl (fail K pid base_rip old_word w1)
       | (False, w1) \<Rightarrow>
          (let new_word1 = list_update (list_update new_word 0 0xff) 1 0xe0 in
           (case poke_text K pid (rip newregs1) new_word1 None 8 w1 of
              (_, _, w2) \<Rightarrow>
               (case singlestep K pid w2 of
                  (rc, w3) \<Rightarrow>
                    if rc \<noteq> 0 then apfst Inl (fail K pid base_rip old_word w3)
                    else
                     (case ptrace_getregs K pid w3 of
                        (None, w4) \<Rightarrow> apfst Inl (fail K pid base_rip old_word w4)
                      | (Some newregs2, w4) \<Rightarrow>
                          if rip newregs2 = base_rip then (Inr newregs2, w4)
                          else apfst Inl (fail K pid base_rip old_word w4)))))))"

text \<open>
  Lines 389-432: unmap the scratch page with a remote \<^verbatim>\<open>munmap\<close> (system call 11), write
  \<^verbatim>\<open>old_word\<close> back, reinstall \<^verbatim>\<open>oldregs\<close> and detach. The result of this \<^verbatim>\<open>poke_text\<close>
  (line 414) is not looked at.
\<close>

definition unmap_stage ::
  "kernel \<Rightarrow> pid_t \<Rightarrow> addr \<Rightarrow> byte list \<Rightarrow> user_regs_struct \<Rightarrow> addr \<Rightarrow> user_regs_struct
     \<Rightarrow> world \<Rightarrow> int c_result \<times> world" where
  "unmap_stage K pid base_rip old_word oldregs mmap_memory newregs w =
     (case ptrace_setregs K pid (newregs\<lparr>rax := 11, rdi := mmap_memory, rsi := PAGE_SIZE\<rparr>) w of
        (True, w1) \<Rightarrow> fail K pid base_rip old_word w1
      | (False, w1) \<Rightarrow>
         (case singlestep K pid w1 of
            (rc, w2) \<Rightarrow>
              if rc \<noteq> 0 then fail K pid base_rip old_word w2
              else
               (case ptrace_getregs K pid w2 of
                  (None, w3) \<Rightarrow> fail K pid base_rip old_word w3
                | (Some newregs1, w3) \<Rightarrow>
                   (case poke_text K pid base_rip old_word None 8 w3 of
                      (_, _, w4) \<Rightarrow>
                       (case ptrace_setregs K pid oldregs w4 of
                          (True, w5) \<Rightarrow> fail K pid base_rip old_word w5
                        | (False, w5) \<Rightarrow>
                           (case issue K (PTRACE_DETACH pid) w5 of
                              (True, w6) \<Rightarrow> fail K pid base_rip old_word w6
                            | (False, w6) \<Rightarrow> (Ret 0, w6)))))))"

text \<open>\<^verbatim>\<open>getenv_process(pid, env)\<close>: the six parts in sequence. \<open>None\<close>: the function never
  returns.\<close>

definition getenv_process :: "kernel \<Rightarrow> pid_t \<Rightarrow> string \<Rightarrow> world \<Rightarrow> (int c_result \<times> world) option" where
  "getenv_process K pid env w =
     (case attach_stage K pid w of
        (Inl r, w1) \<Rightarrow> Some (r, w1)
      | (Inr oldregs, w1) \<Rightarrow>
          (case mmap_stage K pid oldregs w1 of
             (Inl r, w2) \<Rightarrow> Some (r, w2)
           | (Inr (old_word, new_word, mmap_memory, newregs), w2) \<Rightarrow>
               (case call_stage K pid env (rip oldregs) old_word new_word mmap_memory newregs w2 of
                  None \<Rightarrow> None
                | Some (Inl r, w3) \<Rightarrow> Some (r, w3)
                | Some (Inr newregs1, w3) \<Rightarrow>
                    (case read_stage K pid newregs1 w3 of
                       None \<Rightarrow> None
                     | Some (Inl r, w4) \<Rightarrow> Some (r, w4)
                     | Some (Inr _, w4) \<Rightarrow>
                         (case jump_back_stage K pid (rip oldregs) old_word new_word newregs1 w4 of
                            (Inl r, w5) \<Rightarrow> Some (r, w5)
                          | (Inr newregs2, w5) \<Rightarrow>
                              Some (unmap_stage K pid (rip oldregs) old_word oldregs mmap_memory
                                      newregs2 w5))))))"

subsection \<open>\<^verbatim>\<open>main\<close> (lines 442-493)\<close>

text \<open>
  \<^verbatim>\<open>getopt\<close> belongs to the C library; what its successive calls return before -1 is a
  parameter of \<open>main\<close>: for each call the option character returned, \<^verbatim>\<open>optarg\<close> and
  \<^verbatim>\<open>optopt\<close>. The loop keeps \<^verbatim>\<open>pid\<close>, \<^verbatim>\<open>env\<close> (\<open>None\<close> for the null pointer) and whether
  \<^verbatim>\<open>errno\<close> is \<^verbatim>\<open>ERANGE\<close>: \<^verbatim>\<open>errno\<close> is zero when the program starts, only \<^verbatim>\<open>strtol\<close> sets it
  here, and the source never resets it. \<open>Inl\<close> is a \<^verbatim>\<open>return\<close> from inside the loop.
\<close>

fun main_loop ::
  "(char \<times> string \<times> char) list \<Rightarrow> int \<Rightarrow> string option \<Rightarrow> bool \<Rightarrow> int c_result + int \<times> string option" where
  "main_loop [] pid env erange = Inr (pid, env)"
| "main_loop ((c, optarg, optopt) # rest) pid env erange =
     (if c = CHR ''h'' then Inl (Ret 0)
      else if c = CHR ''p'' then
        (case strtol optarg 10 of
           (pid1, overflow) \<Rightarrow>
             (let erange1 = (erange \<or> overflow) in
              if (erange1 \<and> (pid1 = LONG_MAX \<or> pid1 = LONG_MIN)) \<or> (erange1 \<and> pid1 = 0)
              then Inl (Ret 1)
              else if pid1 < 0 then Inl (Ret 1)
              else main_loop rest pid1 env erange1))
      else if c = CHR ''e'' then main_loop rest pid (Some optarg) erange
      else if c = CHR ''?'' then Inl (Ret 1)
      else Inl Abort)"

text \<open>\<^verbatim>\<open>main\<close>; \<^verbatim>\<open>(pid_t)pid\<close> truncates the \<^verbatim>\<open>long\<close> to 32 bits.\<close>

definition main :: "kernel \<Rightarrow> (char \<times> string \<times> char) list \<Rightarrow> world \<Rightarrow> (int c_result \<times> world) option" where
  "main K getopts w =
     (case main_loop getopts (- 1) None False of
        Inl r \<Rightarrow> Some (r, w)
      | Inr (pid, env) \<Rightarrow>
          if pid = - 1 then Some (Ret 1, w)
          else (case env of
                  None \<Rightarrow> Some (Ret 1, w)
                | Some e \<Rightarrow> getenv_process K (sint (word_of_int pid :: 32 word)) e w))"

text \<open>The exit status that the parent of the process sees: the low eight bits of the value
  returned from \<^verbatim>\<open>main\<close> or passed to \<^verbatim>\<open>exit\<close>.\<close>

definition exit_status :: "int c_result \<Rightarrow> int option" where
  "exit_status r = (case r of Ret n \<Rightarrow> Some (n mod 256) | Exit n \<Rightarrow> Some (n mod 256) | _ \<Rightarrow> None)"

section \<open>A sample target\<close>

text \<open>
  A concrete target and kernel, for evaluating the model. The target spins at
  \<open>0x401000\<close> (\<^verbatim>\<open>eb fe\<close>, a jump to itself), and the string \<^verbatim>\<open>bar\<close> lies at
  \<open>0x7ffd00001000\<close>. When it is resumed, \<open>sample_cpu\<close> executes what is at its
  instruction pointer: \<^verbatim>\<open>syscall\<close> (\<^verbatim>\<open>mmap\<close>, number 9, returns \<open>0x7f1000200000\<close>; any
  other call returns 0), \<^verbatim>\<open>jmp *%rax\<close>, or a \<^verbatim>\<open>call\<close> of the target's \<^verbatim>\<open>getenv\<close> at
  \<open>0x7f1000044000\<close> followed by a breakpoint, where \<^verbatim>\<open>getenv\<close> returns the address of
  \<^verbatim>\<open>bar\<close> for the name \<^verbatim>\<open>FOO\<close> and the null pointer otherwise; it stops with \<^verbatim>\<open>SIGTRAP\<close>
  (status \<open>0x57f\<close>) after these and with \<^verbatim>\<open>SIGSEGV\<close> (status \<open>0xb7f\<close>) on anything else.
  The C library is mapped at \<open>0x7f1000000000\<close> in the target (process 1234) and at
  \<open>0x7f2000000000\<close> in the program itself (process 99). No system call fails.
\<close>

definition sample_regs :: user_regs_struct where
  "sample_regs = \<lparr>r15 = 0, r14 = 0, r13 = 0, r12 = 0, rbp = 0x7ffd00000100, rbx = 0, r11 = 0x246, r10 = 0,
     r9 = 0, r8 = 0, rax = 0x2a, rcx = 0, rdx = 0, rsi = 0, rdi = 0, orig_rax = - 1,
     rip = 0x401000, cs = 0x33, eflags = 0x246, rsp = 0x7ffd00000080, ss = 0x2b,
     fs_base = 0, gs_base = 0, ds = 0, es = 0, fs = 0, gs = 0\<rparr>"

definition sample_mem :: "addr \<Rightarrow> byte" where
  "sample_mem a =
     (if a = 0x401000 then 0xeb else if a = 0x401001 then 0xfe
      else if a = 0x7ffd00001000 then 0x62 else if a = 0x7ffd00001001 then 0x61
      else if a = 0x7ffd00001002 then 0x72 else if a = 0x7ffd00001003 then 0
      else 0x90)"

definition sample_cpu :: "target \<Rightarrow> int \<times> target" where
  "sample_cpu t =
     (let r = regs t; m = mem t; pc = rip r in
      if m pc = 0x0f \<and> m (pc + 1) = 0x05 then
        (if rax r = 9 then (0x57f, t\<lparr>regs := r\<lparr>rax := 0x7f1000200000, rcx := pc + 2, r11 := eflags r, rip := pc + 2\<rparr>\<rparr>)
         else (0x57f, t\<lparr>regs := r\<lparr>rax := 0, rcx := pc + 2, r11 := eflags r, rip := pc + 2\<rparr>\<rparr>))
      else if m pc = 0xff \<and> m (pc + 1) = 0xe0 then (0x57f, t\<lparr>regs := r\<lparr>rip := rax r\<rparr>\<rparr>)
      else if m pc = 0xe8 \<and> m (pc + 5) = 0xcc
              \<and> pc + 5 + scast (load_le [m (pc + 1), m (pc + 2), m (pc + 3), m (pc + 4)] :: 32 word) = 0x7f1000044000 then
        (0x57f, t\<lparr>regs := r\<lparr>rax := (if [m (rdi r), m (rdi r + 1), m (rdi r + 2), m (rdi r + 3)] = [0x46, 0x4f, 0x4f, 0] then 0x7ffd00001000 else 0),
                                rcx := 0, rdx := 0, rsi := 0, rdi := 0, r8 := 0, r9 := 0, r10 := 0, r11 := 0,
                                rip := pc + 6\<rparr>\<rparr>)
      else (0xb7f, t))"

definition sample_maps :: "pid_t \<Rightarrow> string list option" where
  "sample_maps p =
     (if p = 1234 then Some
        [''00400000-00452000 r-xp 00000000 08:02 173521      /usr/bin/spin'' @ [CHR 0x0A],
         ''7f1000000000-7f10001bd000 r-xp 00000000 08:02 135522      /usr/lib/x86_64-linux-gnu/libc-2.31.so'' @ [CHR 0x0A]]
      else if p = 99 then Some
        [''7f2000000000-7f20001bd000 r-xp 00000000 08:02 135522      /usr/lib/x86_64-linux-gnu/libc-2.31.so'' @ [CHR 0x0A]]
      else None)"

definition sample_kernel :: kernel where
  "sample_kernel = \<lparr>fails = (\<lambda>n c. False), stops = (\<lambda>n. sample_cpu), procfs = sample_maps, getpid = 99,
     our_getenv = 0x7f2000044000, stack_garbage = (\<lambda>i. 0x55)\<rparr>"

text \<open>The same kernel, except that the \<open>k\<close>-th system call of the run fails.\<close>

definition failing_at :: "nat \<Rightarrow> kernel \<Rightarrow> kernel" where
  "failing_at k K = K\<lparr>fails := (\<lambda>n c. n = k)\<rparr>"

text \<open>The world at the start of a run.\<close>

definition sample_world :: world where
  "sample_world =
     \<lparr>tgt = \<lparr>regs = sample_regs, mem = sample_mem\<rparr>, trace = [], out = [], invalid_len = 0\<rparr>"

text \<open>The maps files when the target is statically linked: no line of its file names
  the C library.\<close>

definition static_maps :: "pid_t \<Rightarrow> string list option" where
  "static_maps p =
     (if p = 1234 then Some
        [''00400000-00452000 r-xp 00000000 08:02 173521      /usr/bin/spin-static'' @ [CHR 0x0A]]
      else sample_maps p)"

text \<open>The maps file of a target in which the dynamic loader is mapped.\<close>

definition loader_line :: string where
  "loader_line =
     ''7f1000400000-7f1000426000 r-xp 00000000 08:02 135500      /usr/lib/x86_64-linux-gnu/ld-linux-x86-64.so.2'' @ [CHR 0x0A]"

definition loader_maps :: "pid_t \<Rightarrow> string list option" where
  "loader_maps p = (if p = 1234 then Some [loader_line] else None)"

text \<open>
  The run of the engine on the sample target, part by part. \<open>sample_mmap_regs\<close> are the
  registers set up for the remote \<^verbatim>\<open>mmap\<close>, \<open>sample_page_regs\<close> the registers read when the
  target has jumped into the scratch page, and \<open>sample_trap_regs result\<close> the registers
  read at the breakpoint, when the remote \<^verbatim>\<open>getenv\<close> has returned \<open>result\<close>.
\<close>

definition sample_mmap_regs :: user_regs_struct where
  "sample_mmap_regs = sample_regs\<lparr>rax := 9, rdi := 0, rsi := 4096, rdx := 5, r10 := 0x22, r8 := - 1, r9 := 0\<rparr>"

definition sample_page_regs :: user_regs_struct where
  "sample_page_regs = sample_regs\<lparr>rax := 0x7f1000200000, rdi := 0, rsi := 4096, rdx := 5, r10 := 0x22,
     r8 := - 1, r9 := 0, rcx := 0x401002, rip := 0x7f1000200000\<rparr>"

definition sample_trap_regs :: "addr \<Rightarrow> user_regs_struct" where
  "sample_trap_regs result = sample_regs\<lparr>rax := result, r11 := 0, rip := 0x7f1000200006\<rparr>"

text \<open>The world after lines 140-159 and after lines 160-235, when nothing fails.\<close>

definition sample_attached :: world where
  "sample_attached = sample_world\<lparr>trace := [PTRACE_ATTACH 1234, WAITPID 1234, PTRACE_GETREGS 1234]\<rparr>"

definition sample_mapped :: world where
  "sample_mapped =
     \<lparr>tgt = \<lparr>regs = sample_page_regs,
              mem = write8 sample_mem 0x401000 [0x0f, 0x05, 0xff, 0xe0, 0x55, 0x55, 0x55, 0x55]\<rparr>,
      trace = [PTRACE_ATTACH 1234, WAITPID 1234, PTRACE_GETREGS 1234,
               PTRACE_PEEKTEXT 1234 0x401000,
               PTRACE_POKETEXT 1234 0x401000 (load_le [0x0f, 0x05, 0xff, 0xe0, 0x55, 0x55, 0x55, 0x55]),
               PTRACE_SETREGS 1234 sample_mmap_regs,
               PTRACE_SINGLESTEP 1234, WAIT, PTRACE_GETREGS 1234,
               PTRACE_SINGLESTEP 1234, WAIT, PTRACE_GETREGS 1234],
      out = [], invalid_len = 0\<rparr>"

text \<open>
  The world after lines 255-336 for a variable name of three characters \<open>c0 c1 c2\<close>, when
  the remote \<^verbatim>\<open>getenv\<close> has returned \<open>result\<close>: the scratch page holds the \<^verbatim>\<open>call\<close>, the
  breakpoint and the name.
\<close>

definition sample_called :: "byte \<Rightarrow> byte \<Rightarrow> byte \<Rightarrow> addr \<Rightarrow> world" where
  "sample_called c0 c1 c2 result =
     \<lparr>tgt = \<lparr>regs = sample_trap_regs result,
              mem = write8 (write8 (write8 (write8 (write8 (write8 sample_mem
                0x401000 [0x0f, 0x05, 0xff, 0xe0, 0x55, 0x55, 0x55, 0x55])
                0x7f1000200000 [0xe8, 0xfb, 0x3f, 0xe4, 0xff, 0xcc, c0, c1])
                0x7f1000200008 [c2, 0, 0, 0, 0, 0, 0, 0])
                0x7f1000200010 [0, 0, 0, 0, 0, 0, 0, 0])
                0x7f1000200018 [0, 0, 0, 0, 0, 0, 0, 0])
                0x401000 [0x0f, 0x05, 0xff, 0xe0, 0x55, 0x55, 0x55, 0x55]\<rparr>,
      trace = trace sample_mapped @
              [PTRACE_POKETEXT 1234 0x7f1000200000 (load_le [0xe8, 0xfb, 0x3f, 0xe4, 0xff, 0xcc, c0, c1]),
               PTRACE_POKETEXT 1234 0x7f1000200008 (load_le [c2, 0, 0, 0, 0, 0, 0, 0]),
               PTRACE_POKETEXT 1234 0x7f1000200010 (load_le [0, 0, 0, 0, 0, 0, 0, 0]),
               PTRACE_POKETEXT 1234 0x7f1000200018 (load_le [0, 0, 0, 0, 0, 0, 0, 0]),
               PTRACE_POKETEXT 1234 0x401000 (load_le [0x0f, 0x05, 0xff, 0xe0, 0x55, 0x55, 0x55, 0x55]),
               PTRACE_SETREGS 1234 (sample_page_regs\<lparr>rax := 0, rdi := 0x7f1000200006\<rparr>),
               PTRACE_CONT 1234, WAIT, PTRACE_GETREGS 1234],
      out = [], invalid_len = 0\<rparr>"

text \<open>The system calls of the whole run for the name \<^verbatim>\<open>FOO\<close>, and the memory of the
  target after the jump back (before \<^verbatim>\<open>old_word\<close> is written back).\<close>

definition sample_trace :: "syscall list" where
  "sample_trace =
     [PTRACE_ATTACH 1234, WAITPID 1234, PTRACE_GETREGS 1234,
      PTRACE_PEEKTEXT 1234 0x401000,
      PTRACE_POKETEXT 1234 0x401000 (load_le [0x0f, 0x05, 0xff, 0xe0, 0x55, 0x55, 0x55, 0x55]),
      PTRACE_SETREGS 1234 sample_mmap_regs,
      PTRACE_SINGLESTEP 1234, WAIT, PTRACE_GETREGS 1234,
      PTRACE_SINGLESTEP 1234, WAIT, PTRACE_GETREGS 1234,
      PTRACE_POKETEXT 1234 0x7f1000200000 (load_le [0xe8, 0xfb, 0x3f, 0xe4, 0xff, 0xcc, 0x46, 0x4f]),
      PTRACE_POKETEXT 1234 0x7f1000200008 (load_le [0x4f, 0, 0, 0, 0, 0, 0, 0]),
      PTRACE_POKETEXT 1234 0x7f1000200010 (load_le [0, 0, 0, 0, 0, 0, 0, 0]),
      PTRACE_POKETEXT 1234 0x7f1000200018 (load_le [0, 0, 0, 0, 0, 0, 0, 0]),
      PTRACE_POKETEXT 1234 0x401000 (load_le [0x0f, 0x05, 0xff, 0xe0, 0x55, 0x55, 0x55, 0x55]),
      PTRACE_SETREGS 1234 (sample_page_regs\<lparr>rax := 0, rdi := 0x7f1000200006\<rparr>),
      PTRACE_CONT 1234, WAIT, PTRACE_GETREGS 1234,
      PTRACE_PEEKDATA 1234 0x7ffd00001000,
      PTRACE_PEEKDATA 1234 0x7ffd00001000,
      PTRACE_SETREGS 1234 (sample_trap_regs 0x401000),
      PTRACE_POKETEXT 1234 0x7f1000200006 (load_le [0xff, 0xe0, 0xff, 0xe0, 0x55, 0x55, 0x55, 0x55]),
      PTRACE_SINGLESTEP 1234, WAIT, PTRACE_GETREGS 1234,
      PTRACE_SETREGS 1234 ((sample_trap_regs 0x401000)\<lparr>rax := 11, rdi := 0x7f1000200000, rsi := 4096, rip := 0x401000\<rparr>),
      PTRACE_SINGLESTEP 1234, WAIT, PTRACE_GETREGS 1234,
      PTRACE_POKETEXT 1234 0x401000 (load_le [0xeb, 0xfe, 0x90, 0x90, 0x90, 0x90, 0x90, 0x90]),
      PTRACE_SETREGS 1234 sample_regs,
      PTRACE_DETACH 1234]"

definition sample_scratch_mem :: "addr \<Rightarrow> byte" where
  "sample_scratch_mem =
     write8 (write8 (write8 (write8 (write8 (write8 (write8 sample_mem
       0x401000 [0x0f, 0x05, 0xff, 0xe0, 0x55, 0x55, 0x55, 0x55])
       0x7f1000200000 [0xe8, 0xfb, 0x3f, 0xe4, 0xff, 0xcc, 0x46, 0x4f])
       0x7f1000200008 [0x4f, 0, 0, 0, 0, 0, 0, 0])
       0x7f1000200010 [0, 0, 0, 0, 0, 0, 0, 0])
       0x7f1000200018 [0, 0, 0, 0, 0, 0, 0, 0])
       0x401000 [0x0f, 0x05, 0xff, 0xe0, 0x55, 0x55, 0x55, 0x55])
       0x7f1000200006 [0xff, 0xe0, 0xff, 0xe0, 0x55, 0x55, 0x55, 0x55]"

section \<open>Notions used to state the properties\<close>

text \<open>The \<^verbatim>\<open>PTRACE_PEEKDATA\<close> requests of \<open>n\<close> consecutive four-byte reads from \<open>offs\<close>
  on.\<close>

definition peeks :: "pid_t \<Rightarrow> addr \<Rightarrow> nat \<Rightarrow> syscall list" where
  "peeks pid offs n = map (\<lambda>j. PTRACE_PEEKDATA pid (offs + 4 * of_nat j)) [0..<n]"

text \<open>The \<open>k\<close>-th read of the scan that starts at \<open>offs\<close> in world \<open>w\<close> succeeds and one of
  the four bytes it covers is zero.\<close>

definition word_ends :: "kernel \<Rightarrow> pid_t \<Rightarrow> world \<Rightarrow> addr \<Rightarrow> nat \<Rightarrow> bool" where
  "word_ends K pid w offs k \<longleftrightarrow>
     \<not> fails K (length (trace w) + k) (PTRACE_PEEKDATA pid (offs + 4 * of_nat k)) \<and>
     (\<exists>i<4. mem (tgt w) (offs + 4 * of_nat k + of_nat i) = 0)"

text \<open>The wait status that \<^verbatim>\<open>do_wait\<close> accepts: stopped, by \<^verbatim>\<open>SIGTRAP\<close>.\<close>

definition trapped :: "int \<Rightarrow> bool" where
  "trapped status \<longleftrightarrow> WIFSTOPPED status \<and> WSTOPSIG status = SIGTRAP"

section \<open>Facts about the model\<close>

subsection \<open>Words and bytes\<close>

lemma load_le_Nil: "load_le [] = 0"
  by (simp add: load_le_def)

lemma load_le_Cons: "load_le (b # bs) = ucast b OR push_bit 8 (load_le bs)"
  by (simp add: load_le_def)

lemma bit_load_le:
  "bit (load_le bs :: 'a::len word) n \<longleftrightarrow>
     n < LENGTH('a) \<and> n div 8 < length bs \<and> bit (bs ! (n div 8)) (n mod 8)"
proof (induction bs arbitrary: n)
  case Nil
  then show ?case by (simp add: load_le_Nil)
next
  case (Cons b bs)
  show ?case
  proof (cases "n < 8")
    case True
    then show ?thesis
      by (auto simp add: load_le_Cons bit_or_iff bit_ucast_iff bit_push_bit_iff dest: bit_imp_le_length)
  next
    case False
    then have "n div 8 = Suc ((n - 8) div 8)" "(n - 8) mod 8 = n mod 8"
      by (simp_all add: le_div_geq le_mod_geq)
    with False show ?thesis
      by (auto simp add: load_le_Cons bit_or_iff bit_ucast_iff bit_push_bit_iff Cons.IH not_less
          dest: bit_imp_le_length)
  qed
qed

lemma length_store_le [simp]: "length (store_le n w) = n"
  by (simp add: store_le_def)

lemma nth_store_le: "i < n \<Longrightarrow> store_le n w ! i = ucast (drop_bit (8 * i) w)"
  by (simp add: store_le_def)

text \<open>Storing the integer loaded from a byte string gives the bytes back.\<close>

lemma store_le_load_le:
  assumes "8 * length bs \<le> LENGTH('a::len)"
  shows "store_le (length bs) (load_le bs :: 'a word) = bs"
proof (rule nth_equalityI)
  show "length (store_le (length bs) (load_le bs :: 'a word)) = length bs"
    by simp
next
  fix i assume "i < length (store_le (length bs) (load_le bs :: 'a word))"
  then have i: "i < length bs" by simp
  show "store_le (length bs) (load_le bs :: 'a word) ! i = bs ! i"
  proof (rule bit_word_eqI)
    fix n assume n: "n < LENGTH(8)"
    then have "8 * i + n < LENGTH('a)" using i assms by simp
    moreover have "(8 * i + n) div 8 = i" "(8 * i + n) mod 8 = n" using n by simp_all
    ultimately show "bit (store_le (length bs) (load_le bs :: 'a word) ! i) n = bit (bs ! i) n"
      using i n by (simp add: nth_store_le bit_ucast_iff bit_drop_bit_eq bit_load_le add.commute)
  qed
qed

text \<open>The low half of a 64-bit word, stored: the first four bytes.\<close>

lemma store_le_ucast_load_le:
  assumes "length bs = 8"
  shows "store_le 4 (ucast (load_le bs :: 64 word) :: 32 word) = take 4 bs"
proof (rule nth_equalityI)
  show "length (store_le 4 (ucast (load_le bs :: 64 word) :: 32 word)) = length (take 4 bs)"
    using assms by simp
next
  fix i assume "i < length (store_le 4 (ucast (load_le bs :: 64 word) :: 32 word))"
  then have i: "i < 4" by simp
  show "store_le 4 (ucast (load_le bs :: 64 word) :: 32 word) ! i = take 4 bs ! i"
  proof (rule bit_word_eqI)
    fix n assume n: "n < LENGTH(8)"
    have "(8 * i + n) div 8 = i" "(8 * i + n) mod 8 = n" using n by simp_all
    then show "bit (store_le 4 (ucast (load_le bs :: 64 word) :: 32 word) ! i) n = bit (take 4 bs ! i) n"
      using i n assms
      by (simp add: nth_store_le bit_ucast_iff bit_drop_bit_eq bit_load_le add.commute)
  qed
qed

lemma u32_less_2p24: "(x :: 32 word) < 0x1000000 \<longleftrightarrow> drop_bit 24 x = 0"
proof -
  have "(x < 2 ^ 24) = (x AND mask 24 = x)"
    by (rule mask_eq_iff_w2p [symmetric]) (simp add: word_size)
  also have "\<dots> \<longleftrightarrow> drop_bit 24 x = 0"
    by (simp add: take_bit_eq_self_iff_drop_bit_eq_0 flip: take_bit_eq_mask)
  finally show ?thesis by simp
qed

lemma byte_test:
  assumes "k \<le> 24"
  shows "push_bit k (d :: 32 word) < 0x1000000 \<longleftrightarrow> (ucast (drop_bit (24 - k) d) :: 8 word) = 0"
proof -
  have "drop_bit 24 (push_bit k d) = 0 \<longleftrightarrow> (ucast (drop_bit (24 - k) d) :: 8 word) = 0"
  proof
    assume h: "drop_bit 24 (push_bit k d) = 0"
    show "(ucast (drop_bit (24 - k) d) :: 8 word) = 0"
    proof (rule bit_word_eqI)
      fix n assume n: "n < LENGTH(8)"
      have "bit (drop_bit 24 (push_bit k d)) n = bit (0 :: 32 word) n" using h by simp
      then show "bit (ucast (drop_bit (24 - k) d) :: 8 word) n = bit (0 :: 8 word) n"
        using n assms by (simp add: bit_simps)
    qed
  next
    assume h: "(ucast (drop_bit (24 - k) d) :: 8 word) = 0"
    show "drop_bit 24 (push_bit k d) = 0"
    proof (rule bit_word_eqI)
      fix n assume n: "n < LENGTH(32)"
      have "bit (ucast (drop_bit (24 - k) d) :: 8 word) n = bit (0 :: 8 word) n" using h by simp
      then show "bit (drop_bit 24 (push_bit k d)) n = bit (0 :: 32 word) n"
        using n assms by (auto simp add: bit_simps dest: bit_imp_le_length)
    qed
  qed
  then show ?thesis by (simp add: u32_less_2p24)
qed

text \<open>The test of line 342 holds exactly when one of the four bytes of the word is zero.\<close>

lemma end_of_string_iff: "end_of_string data \<longleftrightarrow> 0 \<in> set (store_le 4 data)"
proof -
  have "store_le 4 data =
      [ucast (drop_bit 0 data), ucast (drop_bit 8 data), ucast (drop_bit 16 data),
       ucast (drop_bit 24 data)]"
    by (simp add: store_le_def upt_rec)
  moreover have "push_bit 24 data < 0x1000000 \<longleftrightarrow> (ucast (drop_bit 0 data) :: 8 word) = 0"
    using byte_test [of 24 data] by simp
  moreover have "push_bit 16 data < 0x1000000 \<longleftrightarrow> (ucast (drop_bit 8 data) :: 8 word) = 0"
    using byte_test [of 16 data] by simp
  moreover have "push_bit 8 data < 0x1000000 \<longleftrightarrow> (ucast (drop_bit 16 data) :: 8 word) = 0"
    using byte_test [of 8 data] by simp
  moreover have "data < 0x1000000 \<longleftrightarrow> (ucast (drop_bit 24 data) :: 8 word) = 0"
    using byte_test [of 0 data] by simp
  ultimately show ?thesis
    by (auto simp add: end_of_string_def)
qed

lemma not_end_of_string_minus_1: "\<not> end_of_string (- 1)"
proof -
  have "(- 1 :: 32 word) = 0xFFFFFFFF" by simp
  then show ?thesis by (simp only: end_of_string_def) simp
qed

lemma ucast_m1: "(ucast (- 1 :: 64 word) :: 32 word) = - 1"
  by (rule bit_word_eqI) (simp add: bit_simps)

lemma peek_uint32_eq:
  "peek_uint32 K pid offs w =
     (if fails K (length (trace w)) (PTRACE_PEEKDATA pid offs) then - 1
      else ucast (load_le (read8 (mem (tgt w)) offs) :: 64 word),
      w\<lparr>trace := trace w @ [PTRACE_PEEKDATA pid offs]\<rparr>)"
  by (simp add: peek_uint32_def ptrace_peekdata_def issue_def ucast_m1)

lemma length_read8 [simp]: "length (read8 m a) = 8"
  by (simp add: read8_def)

lemma take4_read8: "take 4 (read8 m a) = map (\<lambda>i. m (a + of_nat i)) [0..<4]"
  by (simp add: read8_def take_map upt_rec)

lemma end_of_string_peek:
  "end_of_string (fst (peek_uint32 K pid offs w)) \<longleftrightarrow>
     \<not> fails K (length (trace w)) (PTRACE_PEEKDATA pid offs) \<and>
     (\<exists>i<4. mem (tgt w) (offs + of_nat i) = 0)"
proof (cases "fails K (length (trace w)) (PTRACE_PEEKDATA pid offs)")
  case True
  then show ?thesis by (simp add: peek_uint32_eq not_end_of_string_minus_1)
next
  case False
  have "(0 \<in> set (map (\<lambda>i. mem (tgt w) (offs + of_nat i)) [0..<4])) = (\<exists>i<4. mem (tgt w) (offs + of_nat i) = 0)"
    by (auto simp add: image_iff) 
  with False show ?thesis
    by (simp add: peek_uint32_eq end_of_string_iff store_le_ucast_load_le take4_read8 del: set_map)
qed

subsection \<open>The scan loop\<close>

lemma peeks_Suc_front: "peeks pid offs (Suc n) = PTRACE_PEEKDATA pid offs # peeks pid (offs + 4) n"
proof -
  have "[0..<Suc n] = 0 # map Suc [0..<n]"
    by (simp add: upt_conv_Cons map_Suc_upt del: upt_Suc)
  then show ?thesis
    by (simp add: peeks_def comp_def algebra_simps del: upt_Suc)
qed

lemma word_ends_0:
  "word_ends K pid w offs 0 \<longleftrightarrow> end_of_string (fst (peek_uint32 K pid offs w))"
  by (simp add: word_ends_def end_of_string_peek)

lemma word_ends_Suc:
  "word_ends K pid w offs (Suc k) \<longleftrightarrow>
     word_ends K pid (w\<lparr>trace := trace w @ [PTRACE_PEEKDATA pid offs]\<rparr>) (offs + 4) k"
  by (simp add: word_ends_def algebra_simps)

lemma scan_loop_unfold:
  "scan_loop K pid offs w =
     (if word_ends K pid w offs 0
      then Some (offs + 4, w\<lparr>trace := trace w @ [PTRACE_PEEKDATA pid offs]\<rparr>)
      else scan_loop K pid (offs + 4) (w\<lparr>trace := trace w @ [PTRACE_PEEKDATA pid offs]\<rparr>))"
  by (subst scan_loop.simps) (simp add: word_ends_0 peek_uint32_eq)

text \<open>The loop is left at the first word that ends the string.\<close>

lemma scan_loop_first:
  "word_ends K pid w offs k \<Longrightarrow> \<forall>j<k. \<not> word_ends K pid w offs j \<Longrightarrow>
     scan_loop K pid offs w =
       Some (offs + 4 * of_nat (Suc k), w\<lparr>trace := trace w @ peeks pid offs (Suc k)\<rparr>)"
proof (induction k arbitrary: offs w)
  case 0
  then show ?case
    by (subst scan_loop_unfold) (simp add: peeks_def)
next
  case (Suc k)
  let ?w1 = "w\<lparr>trace := trace w @ [PTRACE_PEEKDATA pid offs]\<rparr>"
  have no0: "\<not> word_ends K pid w offs 0" using Suc.prems(2) by simp
  have e: "word_ends K pid ?w1 (offs + 4) k" using Suc.prems(1) by (simp add: word_ends_Suc)
  have n: "\<forall>j<k. \<not> word_ends K pid ?w1 (offs + 4) j"
    using Suc.prems(2) by (auto simp add: word_ends_Suc [symmetric])
  have "scan_loop K pid offs w = scan_loop K pid (offs + 4) ?w1"
    using no0 by (subst scan_loop_unfold) simp
  also have "\<dots> = Some (offs + 4 + 4 * of_nat (Suc k),
       ?w1\<lparr>trace := trace ?w1 @ peeks pid (offs + 4) (Suc k)\<rparr>)"
    by (rule Suc.IH [OF e n])
  finally show ?case
    by (simp add: peeks_Suc_front [of pid offs "Suc k"] algebra_simps)
qed

lemma scan_loop_Some_ends:
  assumes "scan_loop K pid offs w = Some r"
  shows "\<exists>k. word_ends K pid w offs k"
proof (rule scan_loop.raw_induct [where P = "\<lambda>K pid offs w r. \<exists>k. word_ends K pid w offs k", OF _ assms])
  fix f :: "kernel \<Rightarrow> pid_t \<Rightarrow> addr \<Rightarrow> world \<Rightarrow> (addr \<times> world) option"
    and K pid offs w r
  assume IH: "\<And>K pid offs w y. f K pid offs w = Some y \<Longrightarrow> \<exists>k. word_ends K pid w offs k"
    and eq: "(case peek_uint32 K pid offs w of
               (data, w1) \<Rightarrow> if end_of_string data then Some (offs + 4, w1)
                              else f K pid (offs + 4) w1) = Some r"
  show "\<exists>k. word_ends K pid w offs k"
  proof (cases "word_ends K pid w offs 0")
    case True
    then show ?thesis by blast
  next
    case False
    then have "f K pid (offs + 4) (w\<lparr>trace := trace w @ [PTRACE_PEEKDATA pid offs]\<rparr>) = Some r"
      using eq by (simp add: word_ends_0 peek_uint32_eq split: if_splits)
    then obtain k where "word_ends K pid (w\<lparr>trace := trace w @ [PTRACE_PEEKDATA pid offs]\<rparr>) (offs + 4) k"
      using IH by blast
    then have "word_ends K pid w offs (Suc k)" by (simp add: word_ends_Suc)
    then show ?thesis by blast
  qed
qed

lemma ex_least_word_ends:
  assumes "word_ends K pid w offs k"
  shows "\<exists>k0. word_ends K pid w offs k0 \<and> (\<forall>j<k0. \<not> word_ends K pid w offs j)"
proof -
  let ?k0 = "LEAST k. word_ends K pid w offs k"
  have "word_ends K pid w offs ?k0" using assms by (rule LeastI)
  moreover have "\<forall>j<?k0. \<not> word_ends K pid w offs j" using not_less_Least by blast
  ultimately show ?thesis by blast
qed

lemma peeks_length [simp]: "length (peeks pid offs n) = n"
  by (simp add: peeks_def)



subsection \<open>The block size\<close>

lemma blocksize_loop_terminates:
  "0 < b \<Longrightarrow> \<exists>r k. blocksize_loop b m = Some r \<and> m \<le> r \<and> r = b * 2 ^ k"
proof (induction "m - b" arbitrary: b rule: less_induct)
  case less
  show ?case
  proof (cases "b < m")
    case True
    then have "m - 2 * b < m - b" using less.prems by simp
    then obtain r k where "blocksize_loop (2 * b) m = Some r" "m \<le> r" "r = (2 * b) * 2 ^ k"
      using less.hyps [of "2 * b"] less.prems by auto
    then have "blocksize_loop b m = Some r \<and> m \<le> r \<and> r = b * 2 ^ Suc k"
      using True by (subst blocksize_loop.simps) simp
    then show ?thesis by blast
  next
    case False
    then have "blocksize_loop b m = Some b \<and> m \<le> b \<and> b = b * 2 ^ 0"
      by (subst blocksize_loop.simps) simp
    then show ?thesis by blast
  qed
qed

text \<open>The block size that line 278 computes is a multiple of eight that holds the
  trampoline.\<close>

lemma blocksize_loop_32:
  assumes "blocksize_loop 32 m = Some b"
  shows "b mod 8 = 0 \<and> m \<le> b"
proof -
  obtain r k where r: "blocksize_loop 32 m = Some r" "m \<le> r" "r = 32 * 2 ^ k"
    using blocksize_loop_terminates [of 32 m] by auto
  have "r mod 8 = 0" using r(3) by simp
  with r assms show ?thesis by simp
qed

subsection \<open>The system calls in closed form\<close>

declare poke_text_loop.simps [simp del]

lemma ptrace_getregs_eq:
  "ptrace_getregs K pid w =
     (if fails K (length (trace w)) (PTRACE_GETREGS pid) then None else Some (regs (tgt w)),
      w\<lparr>trace := trace w @ [PTRACE_GETREGS pid]\<rparr>)"
  by (simp add: ptrace_getregs_def issue_def)

lemma ptrace_setregs_eq:
  "ptrace_setregs K pid r w =
     (fails K (length (trace w)) (PTRACE_SETREGS pid r),
      w\<lparr>trace := trace w @ [PTRACE_SETREGS pid r],
        tgt := (if fails K (length (trace w)) (PTRACE_SETREGS pid r) then tgt w
                else (tgt w)\<lparr>regs := r\<rparr>)\<rparr>)"
  by (simp add: ptrace_setregs_def issue_def)

lemma ptrace_poketext_eq:
  "ptrace_poketext K pid a v w =
     (fails K (length (trace w)) (PTRACE_POKETEXT pid a v),
      w\<lparr>trace := trace w @ [PTRACE_POKETEXT pid a v],
        tgt := (if fails K (length (trace w)) (PTRACE_POKETEXT pid a v) then tgt w
                else (tgt w)\<lparr>mem := write8 (mem (tgt w)) a (store_le 8 v)\<rparr>)\<rparr>)"
  by (simp add: ptrace_poketext_def issue_def)

lemma ptrace_peektext_eq:
  "ptrace_peektext K pid a w =
     (if fails K (length (trace w)) (PTRACE_PEEKTEXT pid a) then None
      else Some (load_le (read8 (mem (tgt w)) a)),
      w\<lparr>trace := trace w @ [PTRACE_PEEKTEXT pid a]\<rparr>)"
  by (simp add: ptrace_peektext_def issue_def)

lemma do_wait_eq:
  "do_wait K w =
     (if \<not> fails K (length (trace w)) WAIT \<and> trapped (fst (stops K (length (trace w)) (tgt w)))
      then 0 else - 1,
      w\<lparr>trace := trace w @ [WAIT],
        tgt := (if fails K (length (trace w)) WAIT then tgt w
                else snd (stops K (length (trace w)) (tgt w)))\<rparr>)"
  by (simp add: do_wait_def wait_def issue_def trapped_def split: prod.splits)

lemma singlestep_eq:
  "singlestep K pid w =
     (if fails K (length (trace w)) (PTRACE_SINGLESTEP pid)
      then (- 1, w\<lparr>trace := trace w @ [PTRACE_SINGLESTEP pid]\<rparr>)
      else do_wait K (w\<lparr>trace := trace w @ [PTRACE_SINGLESTEP pid]\<rparr>))"
  by (simp add: singlestep_def issue_def)

lemma poke_text_8_None:
  "poke_text K pid a bs None 8 w =
     (if fails K (length (trace w)) (PTRACE_POKETEXT pid a (load_le (take 8 bs))) then - 1 else 0,
      None,
      snd (ptrace_poketext K pid a (load_le (take 8 bs)) w))"
  by (simp add: poke_text_def poke_text_loop.simps [of _ _ _ _ _ 8 0]
      poke_text_loop.simps [of _ _ _ _ _ 8 8] ptrace_poketext_eq Let_def)

lemma poke_text_8_Some:
  "poke_text K pid a bs (Some old) 8 w =
     (if fails K (length (trace w)) (PTRACE_PEEKTEXT pid a)
      then (- 1, Some old, w\<lparr>trace := trace w @ [PTRACE_PEEKTEXT pid a]\<rparr>)
      else (if fails K (Suc (length (trace w))) (PTRACE_POKETEXT pid a (load_le (take 8 bs)))
            then - 1 else 0,
            Some (memmove old 0 (store_le 8 (load_le (read8 (mem (tgt w)) a) :: 64 word))),
            snd (ptrace_poketext K pid a (load_le (take 8 bs))
                   (w\<lparr>trace := trace w @ [PTRACE_PEEKTEXT pid a]\<rparr>))))"
  by (simp add: poke_text_def poke_text_loop.simps [of _ _ _ _ _ 8 0]
      poke_text_loop.simps [of _ _ _ _ _ 8 8] ptrace_poketext_eq ptrace_peektext_eq Let_def)

lemma fail_eq:
  "fail K pid base_rip old_word w =
     (Ret 1,
      (snd (ptrace_poketext K pid base_rip (load_le (take 8 old_word)) w))
        \<lparr>trace := trace w @ [PTRACE_POKETEXT pid base_rip (load_le (take 8 old_word)),
                              PTRACE_DETACH pid]\<rparr>)"
  by (simp add: fail_def poke_text_8_None issue_def ptrace_poketext_eq)

lemmas closed_forms = ptrace_getregs_eq ptrace_setregs_eq ptrace_poketext_eq ptrace_peektext_eq
  do_wait_eq singlestep_eq poke_text_8_None poke_text_8_Some fail_eq issue_def

lemmas unfold_cases = Let_def case_prod_beta bool.case_eq_if option.case_eq_if

subsection \<open>Standard output is written by the read stage only\<close>

lemma out_poke_text_loop:
  "out (snd (snd (poke_text_loop K pid whr new_text old_text len copied w))) = out w"
proof (induction "len - copied" arbitrary: copied old_text w rule: less_induct)
  case less
  show ?case
  proof (cases "copied < len")
    case False
    then show ?thesis by (simp add: poke_text_loop.simps [of _ _ _ _ _ len copied])
  next
    case True
    then have "len - (copied + 8) < len - copied" by simp
    then have IH: "out (snd (snd (poke_text_loop K pid whr new_text old1 len (copied + 8) w1))) = out w1"
      for old1 w1 by (rule less.hyps)
    show ?thesis
      using True
      by (simp add: poke_text_loop.simps [of _ _ _ _ _ len copied] IH ptrace_poketext_eq
          ptrace_peektext_eq Let_def split: option.splits)
  qed
qed

lemma out_poke_text: "out (snd (snd (poke_text K pid whr new_text old_text len w))) = out w"
  by (simp add: poke_text_def out_poke_text_loop)

lemma out_attach_stage: "out (snd (attach_stage K pid w)) = out w"
  by (simp add: attach_stage_def unfold_cases closed_forms)

lemma out_mmap_stage: "out (snd (mmap_stage K pid oldregs w)) = out w"
  by (simp add: mmap_stage_def unfold_cases closed_forms)

lemma out_call_stage:
  "call_stage K pid env base_rip old_word new_word mmap_memory newregs w = Some (res, w1) \<Longrightarrow>
     out w1 = out w"
  by (auto simp add: call_stage_def unfold_cases closed_forms out_poke_text
      split: c_result.splits option.splits if_splits)



subsection \<open>The message of the length check\<close>

text \<open>
  \<^verbatim>\<open>poke_text\<close> writes its message exactly when the length is not a multiple of eight.
  The parts of the engine leave the count of these messages as it was.
\<close>

lemma invalid_len_poke_text_loop:
  "invalid_len (snd (snd (poke_text_loop K pid whr new_text old_text len copied w))) = invalid_len w"
proof (induction "len - copied" arbitrary: copied old_text w rule: less_induct)
  case less
  show ?case
  proof (cases "copied < len")
    case False
    then show ?thesis by (simp add: poke_text_loop.simps [of _ _ _ _ _ len copied])
  next
    case True
    then have "len - (copied + 8) < len - copied" by simp
    then have IH: "invalid_len (snd (snd (poke_text_loop K pid whr new_text old1 len (copied + 8) w1))) = invalid_len w1"
      for old1 w1 by (rule less.hyps)
    show ?thesis
      using True
      by (simp add: poke_text_loop.simps [of _ _ _ _ _ len copied] IH ptrace_poketext_eq
          ptrace_peektext_eq Let_def split: option.splits)
  qed
qed

lemma invalid_len_poke_text:
  "len mod 8 = 0 \<Longrightarrow>
     invalid_len (snd (snd (poke_text K pid whr new_text old_text len w))) = invalid_len w"
  by (simp add: poke_text_def invalid_len_poke_text_loop)

lemma invalid_len_fail: "invalid_len (snd (fail K pid base_rip old_word w)) = invalid_len w"
  by (simp add: closed_forms)

lemma invalid_len_attach_stage: "invalid_len (snd (attach_stage K pid w)) = invalid_len w"
  by (simp add: attach_stage_def unfold_cases closed_forms)

lemma invalid_len_mmap_stage: "invalid_len (snd (mmap_stage K pid oldregs w)) = invalid_len w"
  by (simp add: mmap_stage_def unfold_cases closed_forms)

lemma invalid_len_jump_back_stage:
  "invalid_len (snd (jump_back_stage K pid base_rip old_word new_word newregs w)) = invalid_len w"
  by (simp add: jump_back_stage_def unfold_cases closed_forms)

lemma invalid_len_unmap_stage:
  "invalid_len (snd (unmap_stage K pid base_rip old_word oldregs mmap_memory newregs w)) = invalid_len w"
  by (simp add: unmap_stage_def unfold_cases closed_forms)

text \<open>The call stage always returns: the loop of line 278 ends.\<close>

lemma call_stage_returns:
  "call_stage K pid env base_rip old_word new_word mmap_memory newregs w \<noteq> None"
proof -
  obtain r k where r: "blocksize_loop 32 (length env + 6) = Some r"
    using blocksize_loop_terminates [of 32 "length env + 6"] by auto
  show ?thesis
    by (simp add: call_stage_def r unfold_cases split: c_result.splits)
qed

lemma invalid_len_call_stage:
  assumes "call_stage K pid env base_rip old_word new_word mmap_memory newregs w = Some (res, w1)"
  shows "invalid_len w1 = invalid_len w"
proof -
  obtain r where r: "blocksize_loop 32 (length env + 6) = Some r"
    using blocksize_loop_terminates [of 32 "length env + 6"] by auto
  have m: "r mod 8 = 0" using blocksize_loop_32 [OF r] by simp
  show ?thesis
    using assms
    by (auto simp add: call_stage_def r unfold_cases closed_forms invalid_len_poke_text [OF m]
        split: c_result.splits if_splits)
qed

text \<open>The two loops of the read stage change nothing but the trace.\<close>

lemma copy_loop_world:
  "snd (copy_loop K pid c offs w) = w\<lparr>trace := trace w @ peeks pid offs c\<rparr>"
proof (induction c arbitrary: offs w)
  case 0
  then show ?case by (simp add: peeks_def)
next
  case (Suc c)
  have "snd (copy_loop K pid (Suc c) offs w) =
      snd (copy_loop K pid c (offs + 4) (w\<lparr>trace := trace w @ [PTRACE_PEEKDATA pid offs]\<rparr>))"
    by (simp add: split_beta peek_uint32_eq)
  then show ?case
    by (simp add: Suc.IH peeks_Suc_front del: copy_loop.simps)
qed

lemma scan_loop_world:
  assumes "scan_loop K pid offs w = Some (offs1, w1)"
  shows "\<exists>n. w1 = w\<lparr>trace := trace w @ peeks pid offs n\<rparr>"
proof -
  obtain k where "word_ends K pid w offs k"
    using scan_loop_Some_ends [OF assms] by blast
  then obtain k0 where "word_ends K pid w offs k0" "\<forall>j<k0. \<not> word_ends K pid w offs j"
    using ex_least_word_ends by blast
  then have "scan_loop K pid offs w =
      Some (offs + 4 * of_nat (Suc k0), w\<lparr>trace := trace w @ peeks pid offs (Suc k0)\<rparr>)"
    by (rule scan_loop_first)
  with assms show ?thesis by auto
qed

lemma invalid_len_read_stage:
  assumes "read_stage K pid newregs w = Some (res, w1)"
  shows "invalid_len w1 = invalid_len w"
proof (cases "rax newregs = 0")
  case True
  then show ?thesis using assms by (simp add: read_stage_def)
next
  case False
  then obtain offs w2 where s: "scan_loop K pid (rax newregs) w = Some (offs, w2)"
    using assms by (auto simp add: read_stage_def split: option.splits)
  then obtain n where w2: "w2 = w\<lparr>trace := trace w @ peeks pid (rax newregs) n\<rparr>"
    using scan_loop_world by blast
  have "w1 = snd (copy_loop K pid (unat (offs - rax newregs) div 4) (rax newregs) w2)
      \<or> w1 = (snd (copy_loop K pid (unat (offs - rax newregs) div 4) (rax newregs) w2))
               \<lparr>out := out (snd (copy_loop K pid (unat (offs - rax newregs) div 4) (rax newregs) w2))
                   @ takeWhile (\<lambda>b. b \<noteq> 0) (fst (copy_loop K pid (unat (offs - rax newregs) div 4) (rax newregs) w2)) @ [0x0a]\<rparr>"
    using assms False s
    by (auto simp add: read_stage_def Let_def split_beta split: if_splits simp del: copy_loop.simps)
  then show ?thesis
    by (auto simp add: copy_loop_world w2)
qed

lemma invalid_len_getenv_process:
  assumes "getenv_process K pid env w = Some (r, w1)"
  shows "invalid_len w1 = invalid_len w"
proof -
  have a: "attach_stage K pid w0 = (x, w') \<Longrightarrow> invalid_len w' = invalid_len w0" for w0 x w'
    using invalid_len_attach_stage [of K pid w0] by simp
  have b: "mmap_stage K pid oldregs w0 = (x, w') \<Longrightarrow> invalid_len w' = invalid_len w0"
    for oldregs w0 x w'
    using invalid_len_mmap_stage [of K pid oldregs w0] by simp
  have c: "jump_back_stage K pid base_rip old_word new_word newregs w0 = (x, w') \<Longrightarrow>
      invalid_len w' = invalid_len w0" for base_rip old_word new_word newregs w0 x w'
    using invalid_len_jump_back_stage [of K pid base_rip old_word new_word newregs w0] by simp
  have d: "unmap_stage K pid base_rip old_word oldregs mmap_memory newregs w0 = (x, w') \<Longrightarrow>
      invalid_len w' = invalid_len w0" for base_rip old_word oldregs mmap_memory newregs w0 x w'
    using invalid_len_unmap_stage [of K pid base_rip old_word oldregs mmap_memory newregs w0] by simp
  show ?thesis
    using assms
    by (auto simp add: getenv_process_def split: prod.splits sum.splits option.splits
        dest!: a b c d invalid_len_call_stage invalid_len_read_stage)
qed

subsection \<open>The read stage on a string\<close>


subsection \<open>The restoration when nothing fails\<close>

lemma world_literal:
  "w\<lparr>tgt := t, trace := tr\<rparr> = \<lparr>tgt = t, trace = tr, out = out w, invalid_len = invalid_len w\<rparr>"
  by (cases w) simp

lemma read_stage_null: "rax newregs = 0 \<Longrightarrow> read_stage K pid newregs w = Some (Inr (), w)"
  by (simp add: read_stage_def)

lemma jump_back_stage_ok:
  assumes no_fail: "\<forall>n c. length (trace w) \<le> n \<longrightarrow> \<not> fails K n c"
    and step: "stops K (length (trace w) + 3)
                 ((tgt w)\<lparr>regs := newregs\<lparr>rax := base_rip\<rparr>,
                          mem := write8 (mem (tgt w)) (rip newregs)
                            (store_le 8 (load_le (take 8 (list_update (list_update new_word 0 0xff) 1 0xe0)) :: 64 word))\<rparr>)
               = (status, t)"
    and trap: "trapped status"
    and lands: "rip (regs t) = base_rip"
  shows "jump_back_stage K pid base_rip old_word new_word newregs w =
           (Inr (regs t),
            w\<lparr>tgt := t,
              trace := trace w @
                [PTRACE_SETREGS pid (newregs\<lparr>rax := base_rip\<rparr>),
                 PTRACE_POKETEXT pid (rip newregs)
                   (load_le (take 8 (list_update (list_update new_word 0 0xff) 1 0xe0))),
                 PTRACE_SINGLESTEP pid, WAIT, PTRACE_GETREGS pid]\<rparr>)"
proof -
  have e: "length (trace w) + 3 = Suc (Suc (Suc (length (trace w))))" by simp
  show ?thesis
    using no_fail step [unfolded e] trap lands
    by (simp add: jump_back_stage_def unfold_cases closed_forms)
qed

lemma unmap_stage_ok:
  assumes no_fail: "\<forall>n c. length (trace w) \<le> n \<longrightarrow> \<not> fails K n c"
    and step: "stops K (length (trace w) + 2)
                 ((tgt w)\<lparr>regs := newregs\<lparr>rax := 11, rdi := mmap_memory, rsi := PAGE_SIZE\<rparr>\<rparr>)
               = (status, t)"
    and trap: "trapped status"
  shows "unmap_stage K pid base_rip old_word oldregs mmap_memory newregs w =
           (Ret 0,
            w\<lparr>tgt := \<lparr>regs = oldregs,
                      mem = write8 (mem t) base_rip (store_le 8 (load_le (take 8 old_word) :: 64 word))\<rparr>,
              trace := trace w @
                [PTRACE_SETREGS pid (newregs\<lparr>rax := 11, rdi := mmap_memory, rsi := PAGE_SIZE\<rparr>),
                 PTRACE_SINGLESTEP pid, WAIT, PTRACE_GETREGS pid,
                 PTRACE_POKETEXT pid base_rip (load_le (take 8 old_word)),
                 PTRACE_SETREGS pid oldregs, PTRACE_DETACH pid]\<rparr>)"
proof -
  have e: "length (trace w) + 2 = Suc (Suc (length (trace w)))" by simp
  show ?thesis
    using no_fail step [unfolded e] trap
    by (simp add: unmap_stage_def unfold_cases closed_forms)
qed

text \<open>\<^verbatim>\<open>new_word\<close> after lines 364 and 365.\<close>

lemma jmp_word:
  assumes "length xs = 8"
  shows "take 8 (list_update (list_update xs 0 a) (Suc 0) b) = [a, b] @ drop 2 xs"
proof -
  obtain x y zs where "xs = x # y # zs"
    using assms by (cases xs; cases "tl xs") auto
  then show ?thesis using assms by simp
qed

subsection \<open>Evaluating the model\<close>

text \<open>Equations that run the model on concrete input without computing on bits.\<close>

lemma read8_eq:
  "read8 m a = [m a, m (a + 1), m (a + 2), m (a + 3), m (a + 4), m (a + 5), m (a + 6), m (a + 7)]"
  by (simp add: read8_def upt_rec)

lemma write8_apply: "write8 m a bs x = (if x - a < 8 then bs ! unat (x - a) else m x)"
  by (simp add: write8_def)

lemma store_le_load_le_8: "length bs = 8 \<Longrightarrow> store_le 8 (load_le bs :: 64 word) = bs"
  using store_le_load_le [of bs, where 'a = 64] by simp

lemma upt_0_8: "[0..<8] = [0, 1, 2, 3, 4, 5, 6, 7]"
  by (simp add: upt_rec)

lemma upt_12_16: "[12..<16] = [12, 13, 14, 15]"
  by (simp add: upt_rec)

lemma trapped_sigtrap: "trapped 0x57f"
  by (simp add: trapped_def WIFSTOPPED_def WSTOPSIG_def SIGTRAP_def)

lemma trapped_sigsegv: "\<not> trapped 0xb7f"
  by (simp add: trapped_def WIFSTOPPED_def WSTOPSIG_def SIGTRAP_def)

lemmas exec = closed_forms trapped_sigtrap trapped_sigsegv
  store_le_load_le_8 read8_eq write8_apply memmove_def upt_0_8 upt_12_16 PAGE_SIZE_def Let_def

lemmas sample_defs = sample_kernel_def failing_at_def sample_world_def sample_regs_def
  sample_mem_def sample_cpu_def

lemmas find_defs = find_library_def libc_string_def text_area_def char_at_def strtol_def
  isspace_def is_digit_def digit_val_def LONG_MAX_def LONG_MIN_def

lemma find_library_static_target: "find_library static_maps 1234 libc_string = Ret 0"
  by (simp add: find_defs static_maps_def)

lemma find_library_static_self: "find_library static_maps 99 libc_string = Ret 0x7f2000000000"
  by (simp add: find_defs static_maps_def sample_maps_def)

lemma find_library_sample_target: "find_library sample_maps 1234 libc_string = Ret 0x7f1000000000"
  by (simp add: find_defs sample_maps_def)

lemma find_library_sample_self: "find_library sample_maps 99 libc_string = Ret 0x7f2000000000"
  by (simp add: find_defs sample_maps_def)

lemma compute_jmp_static: "compute_jmp 0x7f1000200000 0x44000 = Exit 1"
  by (simp add: compute_jmp_def REL32_SZ_def INT_MAX_def INT_MIN_def INT64_MAX_def INT64_MIN_def)

lemma blocksize_loop_32_9: "blocksize_loop 32 9 = Some 32"
  by (subst blocksize_loop.simps) simp

lemma poke_text_32_None:
  "poke_text K pid a bs None 32 w =
     (case ptrace_poketext K pid a (load_le (take 8 bs)) w of
        (True, w1) \<Rightarrow> (- 1, None, w1)
      | (False, w1) \<Rightarrow>
          (case ptrace_poketext K pid (a + 8) (load_le (take 8 (drop 8 bs))) w1 of
             (True, w2) \<Rightarrow> (- 1, None, w2)
           | (False, w2) \<Rightarrow>
               (case ptrace_poketext K pid (a + 16) (load_le (take 8 (drop 16 bs))) w2 of
                  (True, w3) \<Rightarrow> (- 1, None, w3)
                | (False, w3) \<Rightarrow>
                    (case ptrace_poketext K pid (a + 24) (load_le (take 8 (drop 24 bs))) w3 of
                       (True, w4) \<Rightarrow> (- 1, None, w4)
                     | (False, w4) \<Rightarrow> (0, None, w4)))))"
  by (simp add: poke_text_def poke_text_loop.simps [of _ _ _ _ _ 32 0]
      poke_text_loop.simps [of _ _ _ _ _ 32 8] poke_text_loop.simps [of _ _ _ _ _ 32 16]
      poke_text_loop.simps [of _ _ _ _ _ 32 24] poke_text_loop.simps [of _ _ _ _ _ 32 32]
      split: prod.splits bool.splits)

lemma compute_jmp_sample: "compute_jmp 0x7f1000200000 0x7f1000044000 = Ret 0xffe43ffb"
  by (simp add: compute_jmp_def REL32_SZ_def INT_MAX_def INT_MIN_def INT64_MAX_def INT64_MIN_def)

lemma store_le_4_delta: "store_le 4 (0xffe43ffb :: 32 word) = [0xfb, 0x3f, 0xe4, 0xff]"
  by (simp add: store_le_def upt_rec)

lemma load_le_delta: "scast (load_le [0xfb, 0x3f, 0xe4, 0xff] :: 32 word) = (0xffffffffffe43ffb :: 64 word)"
  by (simp add: load_le_def)

lemma ex_less_4: "(\<exists>i<4. P (i::nat)) \<longleftrightarrow> P 0 \<or> P 1 \<or> P 2 \<or> P 3"
proof -
  have "{..<4::nat} = {0, 1, 2, 3}" by auto
  then have "(\<exists>i\<in>{..<4::nat}. P i) \<longleftrightarrow> P 0 \<or> P 1 \<or> P 2 \<or> P 3" by simp
  then show ?thesis by (simp add: Bex_def)
qed

lemma copy_loop_1:
  "copy_loop K pid 1 offs w = (case peek_uint32 K pid offs w of (data, w1) \<Rightarrow> (store_le 4 data, w1))"
  unfolding One_nat_def by (simp split: prod.splits)

lemma replicate_7: "replicate 7 x = [x, x, x, x, x, x, x]"
  by (simp add: numeral_eq_Suc)

lemma replicate_8: "replicate 8 x = [x, x, x, x, x, x, x, x]"
  by (simp add: numeral_eq_Suc)

lemmas run_defs = getenv_process_def attach_stage_def mmap_stage_def call_stage_def read_stage_def
  jump_back_stage_def unmap_stage_def

lemmas exec_call = poke_text_32_None compute_jmp_sample store_le_4_delta load_le_delta
  find_library_sample_target find_library_sample_self blocksize_loop_32_9
  scan_loop_unfold word_ends_def ex_less_4 copy_loop_1 peek_uint32_eq store_le_ucast_load_le
  replicate_7 replicate_8

lemmas sample_regs_defs = sample_mmap_regs_def sample_page_regs_def sample_trap_regs_def

text \<open>The parts of the engine on the sample target.\<close>

lemma attach_stage_sample:
  "attach_stage sample_kernel 1234 sample_world = (Inr sample_regs, sample_attached)"
  by (simp add: attach_stage_def exec sample_kernel_def sample_world_def sample_attached_def)

lemma mmap_stage_sample:
  "mmap_stage sample_kernel 1234 sample_regs sample_attached =
     (Inr ([0xeb, 0xfe, 0x90, 0x90, 0x90, 0x90, 0x90, 0x90],
           [0x0f, 0x05, 0xff, 0xe0, 0x55, 0x55, 0x55, 0x55],
           0x7f1000200000, sample_page_regs), sample_mapped)"
  by (simp add: mmap_stage_def exec sample_defs sample_attached_def sample_mapped_def sample_regs_defs)


lemma call_stage_sample_BAR:
  "call_stage sample_kernel 1234 ''BAR'' 0x401000
      [0xeb, 0xfe, 0x90, 0x90, 0x90, 0x90, 0x90, 0x90]
      [0x0f, 0x05, 0xff, 0xe0, 0x55, 0x55, 0x55, 0x55]
      0x7f1000200000 sample_page_regs sample_mapped =
     Some (Inr (sample_trap_regs 0), sample_called 0x42 0x41 0x52 0)"
  by (simp add: call_stage_def exec exec_call sample_defs sample_mapped_def sample_called_def
      sample_regs_defs)

text \<open>The whole run for \<^verbatim>\<open>FOO\<close>, and the same run when the write of line 414 (the 33rd
  system call) fails.\<close>

lemma sample_run:
  "getenv_process sample_kernel 1234 ''FOO'' sample_world =
     Some (Ret 0,
       \<lparr>tgt = \<lparr>regs = sample_regs,
                mem = write8 sample_scratch_mem 0x401000 [0xeb, 0xfe, 0x90, 0x90, 0x90, 0x90, 0x90, 0x90]\<rparr>,
        trace = sample_trace,
        out = [0x62, 0x61, 0x72, 0x0a], invalid_len = 0\<rparr>)"
  by (simp add: run_defs exec exec_call sample_defs sample_trace_def sample_scratch_mem_def
      sample_regs_defs)

lemma sample_run_write_back_fails:
  "getenv_process (failing_at 32 sample_kernel) 1234 ''FOO'' sample_world =
     Some (Ret 0,
       \<lparr>tgt = \<lparr>regs = sample_regs, mem = sample_scratch_mem\<rparr>,
        trace = sample_trace,
        out = [0x62, 0x61, 0x72, 0x0a], invalid_len = 0\<rparr>)"
  by (simp add: run_defs exec exec_call sample_defs sample_trace_def sample_scratch_mem_def
      sample_regs_defs)

section \<open>The claims\<close>

text \<open>
  C1 (the code departs from the claim). The result of the \<^verbatim>\<open>poke_text\<close> that writes
  \<^verbatim>\<open>old_word\<close> back (line 414) is not looked at. When that write, the 33rd system call
  of the run for \<^verbatim>\<open>FOO\<close>, fails, the engine goes on: it reinstalls the registers, detaches
  and returns 0, and the value has been printed. The eight bytes at the original
  instruction pointer \<open>0x401000\<close>, \<^verbatim>\<open>eb fe 90 90 90 90 90 90\<close> before the attach, are
  \<^verbatim>\<open>0f 05 ff e0 55 55 55 55\<close> when the target is detached.
\<close>

theorem getenv_process_reports_success_without_write_back:
  "getenv_process (failing_at 32 sample_kernel) 1234 ''FOO'' sample_world =
     Some (Ret 0,
       \<lparr>tgt = \<lparr>regs = sample_regs, mem = sample_scratch_mem\<rparr>,
        trace = sample_trace,
        out = [0x62, 0x61, 0x72, 0x0a], invalid_len = 0\<rparr>)
   \<and> sample_trace ! 32 =
       PTRACE_POKETEXT 1234 0x401000 (load_le [0xeb, 0xfe, 0x90, 0x90, 0x90, 0x90, 0x90, 0x90])
   \<and> rip (regs (tgt sample_world)) = 0x401000
   \<and> read8 (mem (tgt sample_world)) 0x401000 = [0xeb, 0xfe, 0x90, 0x90, 0x90, 0x90, 0x90, 0x90]
   \<and> read8 sample_scratch_mem 0x401000 = [0x0f, 0x05, 0xff, 0xe0, 0x55, 0x55, 0x55, 0x55]"
  using sample_run_write_back_fails
  by (simp add: sample_trace_def sample_world_def sample_mem_def
      sample_regs_def sample_scratch_mem_def write8_apply read8_eq)



text \<open>
  C3 (the code departs from the claim). With a statically linked target \<^verbatim>\<open>find_library\<close>
  returns the null pointer for it, the displacement from the scratch page to the address
  computed for \<^verbatim>\<open>getenv\<close> does not fit in 32 bits, and \<^verbatim>\<open>compute_jmp\<close> ends the process
  with \<^verbatim>\<open>exit(1)\<close>: the last system call of the run is the \<^verbatim>\<open>PTRACE_GETREGS\<close> of line
  224, nothing is written back and no \<^verbatim>\<open>PTRACE_DETACH\<close> is issued. The target keeps
  \<^verbatim>\<open>0f 05 ff e0\<close> at \<open>0x401000\<close> and its instruction pointer in the scratch page.
\<close>

theorem getenv_process_unreachable_exits_without_restore:
  "getenv_process (sample_kernel\<lparr>procfs := static_maps\<rparr>) 1234 ''FOO'' sample_world
   = Some (Exit 1,
       \<lparr>tgt = \<lparr>regs = sample_regs\<lparr>rax := 0x7f1000200000, rdi := 0, rsi := 4096, rdx := 5,
                                      r10 := 0x22, r8 := - 1, r9 := 0, rcx := 0x401002,
                                      r11 := 0x246, rip := 0x7f1000200000\<rparr>,
               mem = write8 sample_mem 0x401000 [0x0f, 0x05, 0xff, 0xe0, 0x55, 0x55, 0x55, 0x55]\<rparr>,
        trace = [PTRACE_ATTACH 1234, WAITPID 1234, PTRACE_GETREGS 1234,
                 PTRACE_PEEKTEXT 1234 0x401000,
                 PTRACE_POKETEXT 1234 0x401000
                   (load_le [0x0f, 0x05, 0xff, 0xe0, 0x55, 0x55, 0x55, 0x55]),
                 PTRACE_SETREGS 1234
                   (sample_regs\<lparr>rax := 9, rdi := 0, rsi := 4096, rdx := 5, r10 := 0x22,
                                  r8 := - 1, r9 := 0\<rparr>),
                 PTRACE_SINGLESTEP 1234, WAIT, PTRACE_GETREGS 1234,
                 PTRACE_SINGLESTEP 1234, WAIT, PTRACE_GETREGS 1234],
        out = [], invalid_len = 0\<rparr>)"
  by (simp add: getenv_process_def attach_stage_def mmap_stage_def call_stage_def exec sample_defs
      find_library_static_target find_library_static_self compute_jmp_static blocksize_loop_32_9)

text \<open>
  C4 (the code departs from the claim). When the \<^verbatim>\<open>PTRACE_GETREGS\<close> that follows the
  \<^verbatim>\<open>mmap\<close> single-step fails (line 204, the ninth system call of the run),
  \<^verbatim>\<open>getenv_process\<close> returns -1 at once (line 206): that \<^verbatim>\<open>PTRACE_GETREGS\<close> is the last
  system call of the run, so the saved bytes are not written back and no
  \<^verbatim>\<open>PTRACE_DETACH\<close> is issued, and the target is left with \<^verbatim>\<open>0f 05 ff e0\<close> at
  \<open>0x401000\<close> and its instruction pointer behind the \<^verbatim>\<open>syscall\<close>.
\<close>

theorem getenv_process_getregs_failure_no_cleanup:
  "getenv_process (failing_at 8 sample_kernel) 1234 ''FOO'' sample_world
   = Some (Ret (- 1),
       \<lparr>tgt = \<lparr>regs = sample_regs\<lparr>rax := 0x7f1000200000, rdi := 0, rsi := 4096, rdx := 5,
                                      r10 := 0x22, r8 := - 1, r9 := 0, rcx := 0x401002,
                                      r11 := 0x246, rip := 0x401002\<rparr>,
               mem = write8 sample_mem 0x401000 [0x0f, 0x05, 0xff, 0xe0, 0x55, 0x55, 0x55, 0x55]\<rparr>,
        trace = [PTRACE_ATTACH 1234, WAITPID 1234, PTRACE_GETREGS 1234,
                 PTRACE_PEEKTEXT 1234 0x401000,
                 PTRACE_POKETEXT 1234 0x401000
                   (load_le [0x0f, 0x05, 0xff, 0xe0, 0x55, 0x55, 0x55, 0x55]),
                 PTRACE_SETREGS 1234
                   (sample_regs\<lparr>rax := 9, rdi := 0, rsi := 4096, rdx := 5, r10 := 0x22,
                                  r8 := - 1, r9 := 0\<rparr>),
                 PTRACE_SINGLESTEP 1234, WAIT, PTRACE_GETREGS 1234],
        out = [], invalid_len = 0\<rparr>)"
  by (simp add: getenv_process_def attach_stage_def mmap_stage_def exec sample_defs)

text \<open>
  C5. Let the parts of the engine before the read end normally and the remote \<^verbatim>\<open>getenv\<close>
  have returned the null pointer; let no system call fail from then on, and let the
  target stop with \<^verbatim>\<open>SIGTRAP\<close> after each of the two single-steps, the first time at the
  original instruction pointer. Then \<^verbatim>\<open>getenv_process\<close> returns 0 and the exit status is
  0, nothing is added to standard output, and the system calls after the trap are those
  of the whole restoration: the registers with \<^verbatim>\<open>rax\<close> set to the original instruction
  pointer, the \<^verbatim>\<open>jmp\<close>, a single-step; the registers for \<^verbatim>\<open>munmap\<close>, a single-step;
  \<^verbatim>\<open>old_word\<close> written back, \<^verbatim>\<open>oldregs\<close> reinstalled, and the detach. The target is left
  with the registers it had at the attach and with \<^verbatim>\<open>old_word\<close> at the original
  instruction pointer.
\<close>

theorem getenv_process_absent_variable:
  assumes attach: "attach_stage K pid w = (Inr oldregs, w1)"
    and mmap: "mmap_stage K pid oldregs w1 = (Inr (old_word, new_word, mmap_memory, newregs), w2)"
    and call: "call_stage K pid env (rip oldregs) old_word new_word mmap_memory newregs w2
                 = Some (Inr newregs1, w3)"
    and null: "rax newregs1 = 0"
    and no_fail: "\<forall>n c. length (trace w3) \<le> n \<longrightarrow> \<not> fails K n c"
    and jump: "stops K (length (trace w3) + 3)
                 ((tgt w3)\<lparr>regs := newregs1\<lparr>rax := rip oldregs\<rparr>,
                           mem := write8 (mem (tgt w3)) (rip newregs1)
                             (store_le 8 (load_le (take 8 (list_update (list_update new_word 0 0xff) 1 0xe0)) :: 64 word))\<rparr>)
               = (status1, t1)"
    and trap1: "trapped status1"
    and lands: "rip (regs t1) = rip oldregs"
    and unmap: "stops K (length (trace w3) + 7)
                 (t1\<lparr>regs := (regs t1)\<lparr>rax := 11, rdi := mmap_memory, rsi := PAGE_SIZE\<rparr>\<rparr>)
               = (status2, t2)"
    and trap2: "trapped status2"
  shows "getenv_process K pid env w =
           Some (Ret 0,
             \<lparr>tgt = \<lparr>regs = oldregs,
                      mem = write8 (mem t2) (rip oldregs) (store_le 8 (load_le (take 8 old_word) :: 64 word))\<rparr>,
              trace = trace w3 @
                [PTRACE_SETREGS pid (newregs1\<lparr>rax := rip oldregs\<rparr>),
                 PTRACE_POKETEXT pid (rip newregs1)
                   (load_le (take 8 (list_update (list_update new_word 0 0xff) 1 0xe0))),
                 PTRACE_SINGLESTEP pid, WAIT, PTRACE_GETREGS pid,
                 PTRACE_SETREGS pid ((regs t1)\<lparr>rax := 11, rdi := mmap_memory, rsi := PAGE_SIZE\<rparr>),
                 PTRACE_SINGLESTEP pid, WAIT, PTRACE_GETREGS pid,
                 PTRACE_POKETEXT pid (rip oldregs) (load_le (take 8 old_word)),
                 PTRACE_SETREGS pid oldregs, PTRACE_DETACH pid],
              out = out w, invalid_len = invalid_len w\<rparr>)
         \<and> exit_status (Ret 0) = Some 0"
proof -
  have o1: "out w1 = out w" using out_attach_stage [of K pid w] attach by simp
  have o2: "out w2 = out w1" using out_mmap_stage [of K pid oldregs w1] mmap by simp
  have o3: "out w3 = out w2" using out_call_stage [OF call] .
  have i1: "invalid_len w1 = invalid_len w" using invalid_len_attach_stage [of K pid w] attach by simp
  have i2: "invalid_len w2 = invalid_len w1" using invalid_len_mmap_stage [of K pid oldregs w1] mmap by simp
  have i3: "invalid_len w3 = invalid_len w2" using invalid_len_call_stage [OF call] .
  have rd: "read_stage K pid newregs1 w3 = Some (Inr (), w3)"
    using null by (rule read_stage_null)
  have jb: "jump_back_stage K pid (rip oldregs) old_word new_word newregs1 w3 =
      (Inr (regs t1),
       w3\<lparr>tgt := t1,
           trace := trace w3 @
             [PTRACE_SETREGS pid (newregs1\<lparr>rax := rip oldregs\<rparr>),
              PTRACE_POKETEXT pid (rip newregs1)
                (load_le (take 8 (list_update (list_update new_word 0 0xff) 1 0xe0))),
              PTRACE_SINGLESTEP pid, WAIT, PTRACE_GETREGS pid]\<rparr>)"
    using no_fail jump trap1 lands by (rule jump_back_stage_ok)
  let ?w5 = "w3\<lparr>tgt := t1,
           trace := trace w3 @
             [PTRACE_SETREGS pid (newregs1\<lparr>rax := rip oldregs\<rparr>),
              PTRACE_POKETEXT pid (rip newregs1)
                (load_le (take 8 (list_update (list_update new_word 0 0xff) 1 0xe0))),
              PTRACE_SINGLESTEP pid, WAIT, PTRACE_GETREGS pid]\<rparr>"
  have nf5: "\<forall>n c. length (trace ?w5) \<le> n \<longrightarrow> \<not> fails K n c"
    using no_fail by simp
  have st5: "stops K (length (trace ?w5) + 2)
      ((tgt ?w5)\<lparr>regs := (regs t1)\<lparr>rax := 11, rdi := mmap_memory, rsi := PAGE_SIZE\<rparr>\<rparr>) = (status2, t2)"
  proof -
    have idx: "length (trace ?w5) + 2 = length (trace w3) + 7" by simp
    show ?thesis by (simp only: idx) (simp add: unmap)
  qed
  have um: "unmap_stage K pid (rip oldregs) old_word oldregs mmap_memory (regs t1) ?w5 =
      (Ret 0,
       ?w5\<lparr>tgt := \<lparr>regs = oldregs,
                  mem = write8 (mem t2) (rip oldregs) (store_le 8 (load_le (take 8 old_word) :: 64 word))\<rparr>,
           trace := trace ?w5 @
             [PTRACE_SETREGS pid ((regs t1)\<lparr>rax := 11, rdi := mmap_memory, rsi := PAGE_SIZE\<rparr>),
              PTRACE_SINGLESTEP pid, WAIT, PTRACE_GETREGS pid,
              PTRACE_POKETEXT pid (rip oldregs) (load_le (take 8 old_word)),
              PTRACE_SETREGS pid oldregs, PTRACE_DETACH pid]\<rparr>)"
    using nf5 st5 trap2 by (rule unmap_stage_ok)
  have g: "getenv_process K pid env w =
      Some (unmap_stage K pid (rip oldregs) old_word oldregs mmap_memory (regs t1) ?w5)"
    by (simp add: getenv_process_def attach mmap call rd jb)
  have tr: "trace ?w5 @
             [PTRACE_SETREGS pid ((regs t1)\<lparr>rax := 11, rdi := mmap_memory, rsi := PAGE_SIZE\<rparr>),
              PTRACE_SINGLESTEP pid, WAIT, PTRACE_GETREGS pid,
              PTRACE_POKETEXT pid (rip oldregs) (load_le (take 8 old_word)),
              PTRACE_SETREGS pid oldregs, PTRACE_DETACH pid] =
           trace w3 @
                [PTRACE_SETREGS pid (newregs1\<lparr>rax := rip oldregs\<rparr>),
                 PTRACE_POKETEXT pid (rip newregs1)
                   (load_le (take 8 (list_update (list_update new_word 0 0xff) 1 0xe0))),
                 PTRACE_SINGLESTEP pid, WAIT, PTRACE_GETREGS pid,
                 PTRACE_SETREGS pid ((regs t1)\<lparr>rax := 11, rdi := mmap_memory, rsi := PAGE_SIZE\<rparr>),
                 PTRACE_SINGLESTEP pid, WAIT, PTRACE_GETREGS pid,
                 PTRACE_POKETEXT pid (rip oldregs) (load_le (take 8 old_word)),
                 PTRACE_SETREGS pid oldregs, PTRACE_DETACH pid]"
    by simp
  have lit: "?w5\<lparr>tgt := t, trace := tr\<rparr> =
      \<lparr>tgt = t, trace = tr, out = out w, invalid_len = invalid_len w\<rparr>" for t tr
    by (cases w3) (simp add: o1 [symmetric] o2 [symmetric] o3 [symmetric]
        i1 [symmetric] i2 [symmetric] i3 [symmetric])
  show ?thesis
    by (simp only: g um tr lit) (simp add: exit_status_def)
qed

text \<open>On the sample target: the name \<^verbatim>\<open>BAR\<close>, which it has not set.\<close>

theorem getenv_process_absent_variable_witness:
  "call_stage sample_kernel 1234 ''BAR'' 0x401000
      [0xeb, 0xfe, 0x90, 0x90, 0x90, 0x90, 0x90, 0x90]
      [0x0f, 0x05, 0xff, 0xe0, 0x55, 0x55, 0x55, 0x55]
      0x7f1000200000 sample_page_regs sample_mapped =
     Some (Inr (sample_trap_regs 0), sample_called 0x42 0x41 0x52 0)
   \<and> rax (sample_trap_regs 0) = 0
   \<and> getenv_process sample_kernel 1234 ''BAR'' sample_world =
       Some (Ret 0,
         \<lparr>tgt = \<lparr>regs = sample_regs,
                  mem = write8
                          (write8 (mem (tgt (sample_called 0x42 0x41 0x52 0))) 0x7f1000200006
                             [0xff, 0xe0, 0xff, 0xe0, 0x55, 0x55, 0x55, 0x55])
                          0x401000 [0xeb, 0xfe, 0x90, 0x90, 0x90, 0x90, 0x90, 0x90]\<rparr>,
          trace = trace (sample_called 0x42 0x41 0x52 0) @
            [PTRACE_SETREGS 1234 (sample_trap_regs 0x401000),
             PTRACE_POKETEXT 1234 0x7f1000200006
               (load_le [0xff, 0xe0, 0xff, 0xe0, 0x55, 0x55, 0x55, 0x55]),
             PTRACE_SINGLESTEP 1234, WAIT, PTRACE_GETREGS 1234,
             PTRACE_SETREGS 1234
               ((sample_trap_regs 11)\<lparr>rdi := 0x7f1000200000, rsi := 4096, rip := 0x401000\<rparr>),
             PTRACE_SINGLESTEP 1234, WAIT, PTRACE_GETREGS 1234,
             PTRACE_POKETEXT 1234 0x401000
               (load_le [0xeb, 0xfe, 0x90, 0x90, 0x90, 0x90, 0x90, 0x90]),
             PTRACE_SETREGS 1234 sample_regs, PTRACE_DETACH 1234],
          out = [], invalid_len = 0\<rparr>)
   \<and> exit_status (Ret 0) = Some 0"
proof -
  let ?w3 = "sample_called 0x42 0x41 0x52 0"
  let ?old = "[0xeb, 0xfe, 0x90, 0x90, 0x90, 0x90, 0x90, 0x90] :: byte list"
  let ?new = "[0x0f, 0x05, 0xff, 0xe0, 0x55, 0x55, 0x55, 0x55] :: byte list"
  let ?t1 = "\<lparr>regs = (sample_trap_regs 0x401000)\<lparr>rip := 0x401000\<rparr>,
              mem = write8 (mem (tgt ?w3)) 0x7f1000200006
                      [0xff, 0xe0, 0xff, 0xe0, 0x55, 0x55, 0x55, 0x55]\<rparr>"
  let ?t2 = "\<lparr>regs = (sample_trap_regs 0)\<lparr>rdi := 0x7f1000200000, rsi := 4096, rcx := 0x401002,
                                             r11 := 0x246, rip := 0x401002\<rparr>,
              mem = write8 (mem (tgt ?w3)) 0x7f1000200006
                      [0xff, 0xe0, 0xff, 0xe0, 0x55, 0x55, 0x55, 0x55]\<rparr>"
  have mm: "mmap_stage sample_kernel 1234 sample_regs sample_attached =
     (Inr (?old, ?new, 0x7f1000200000, sample_page_regs), sample_mapped)"
    by (rule mmap_stage_sample)
  have cl: "call_stage sample_kernel 1234 ''BAR'' (rip sample_regs) ?old ?new
      0x7f1000200000 sample_page_regs sample_mapped = Some (Inr (sample_trap_regs 0), ?w3)"
    using call_stage_sample_BAR by (simp add: sample_regs_def)
  have null: "rax (sample_trap_regs 0) = 0" by (simp add: sample_trap_regs_def)
  have nf: "\<forall>n c. length (trace ?w3) \<le> n \<longrightarrow> \<not> fails sample_kernel n c"
    by (simp add: sample_kernel_def)
  have jump: "stops sample_kernel (length (trace ?w3) + 3)
                 ((tgt ?w3)\<lparr>regs := (sample_trap_regs 0)\<lparr>rax := rip sample_regs\<rparr>,
                           mem := write8 (mem (tgt ?w3)) (rip (sample_trap_regs 0))
                             (store_le 8 (load_le (take 8 (list_update (list_update ?new 0 0xff) 1 0xe0)) :: 64 word))\<rparr>)
               = (0x57f, ?t1)"
    by (simp add: sample_kernel_def sample_cpu_def sample_called_def sample_trap_regs_def
        sample_regs_def sample_mem_def store_le_load_le_8 write8_apply Let_def)
  have lands: "rip (regs ?t1) = rip sample_regs" by (simp add: sample_regs_def)
  have unmap: "stops sample_kernel (length (trace ?w3) + 7)
                 (?t1\<lparr>regs := (regs ?t1)\<lparr>rax := 11, rdi := 0x7f1000200000, rsi := PAGE_SIZE\<rparr>\<rparr>)
               = (0x57f, ?t2)"
    by (simp add: sample_kernel_def sample_cpu_def sample_called_def sample_trap_regs_def
        sample_regs_def sample_mem_def write8_apply Let_def PAGE_SIZE_def)
  show ?thesis
    using getenv_process_absent_variable [OF attach_stage_sample mm cl null nf jump
        trapped_sigtrap lands unmap trapped_sigtrap]
      call_stage_sample_BAR null
    by (simp add: store_le_load_le_8 sample_trap_regs_def sample_regs_def sample_world_def
        PAGE_SIZE_def)
qed

text \<open>
  C6 (the code departs from the claim). When \<^verbatim>\<open>PTRACE_ATTACH\<close> fails, \<^verbatim>\<open>getenv_process\<close>
  returns -1 (line 144), \<^verbatim>\<open>main\<close> returns that value (line 492), and the exit status
  of the process is 255, not 1. The options are \<^verbatim>\<open>-p 1234 -e FOO\<close>.
\<close>

theorem main_attach_failure_exit_status:
  "main (failing_at 0 sample_kernel)
        [(CHR ''p'', ''1234'', CHR 0x00), (CHR ''e'', ''FOO'', CHR 0x00)] sample_world
     = Some (Ret (- 1), sample_world\<lparr>trace := [PTRACE_ATTACH 1234]\<rparr>)
   \<and> exit_status (Ret (- 1)) = Some 255"
  by (simp add: main_def find_defs getenv_process_def attach_stage_def exec sample_defs
      exit_status_def)

text \<open>
  C7 (the code departs from the claim). The needle \<^verbatim>\<open>/ld\<close> occurs in the line of the
  dynamic loader, whose permissions are \<^verbatim>\<open>r-xp\<close>, and the character right after the
  needle is \<^verbatim>\<open>-\<close>, not a lowercase letter; \<^verbatim>\<open>find_library\<close> nevertheless returns the
  null pointer, because it tests the character at \<^verbatim>\<open>strlen(libc_string)\<close> = 5 from the
  start of the match, the \<^verbatim>\<open>i\<close> of \<^verbatim>\<open>/ld-linux\<close>.
\<close>

theorem find_library_tests_wrong_character:
  "find_library loader_maps 1234 ''/ld'' = Ret 0
   \<and> strstr loader_line ''/ld'' = Some (''/ld-linux-x86-64.so.2'' @ [CHR 0x0A])
   \<and> strstr loader_line text_area \<noteq> None
   \<and> fst (strtol loader_line 16) = 0x7f1000400000"
  by (simp add: find_defs loader_maps_def loader_line_def)

text \<open>
  C8 (amended). In the jump back (lines 358-387) the engine first installs the working
  registers with \<^verbatim>\<open>rax\<close> set to the original instruction pointer. When that succeeds it
  writes \<^verbatim>\<open>new_word\<close>, which now starts with the two bytes \<^verbatim>\<open>ff e0\<close> of \<^verbatim>\<open>jmp *%rax\<close>, with
  no capture at \<^verbatim>\<open>newregs.rip\<close>, the instruction pointer at which the target has trapped in
  the scratch page (not at the original instruction pointer), and single-steps once. It
  goes on only when the instruction pointer read after the step is the original one;
  otherwise it fails: it returns 1 through the label \<^verbatim>\<open>fail\<close>, which writes \<^verbatim>\<open>old_word\<close>
  back and detaches.
\<close>

theorem jump_back_stage_result:
  assumes run: "jump_back_stage K pid base_rip old_word new_word newregs w = (res, w')"
    and setregs_ok: "\<not> fails K (length (trace w)) (PTRACE_SETREGS pid (newregs\<lparr>rax := base_rip\<rparr>))"
    and len: "length new_word = 8"
  shows "prefix (trace w @ [PTRACE_SETREGS pid (newregs\<lparr>rax := base_rip\<rparr>),
                            PTRACE_POKETEXT pid (rip newregs) (load_le ([0xff, 0xe0] @ drop 2 new_word)),
                            PTRACE_SINGLESTEP pid]) (trace w')
       \<and> (case res of
            Inr newregs2 \<Rightarrow> newregs2 = regs (tgt w') \<and> rip newregs2 = base_rip
          | Inl r \<Rightarrow>
              r = Ret 1 \<and>
              suffix [PTRACE_POKETEXT pid base_rip (load_le (take 8 old_word)), PTRACE_DETACH pid]
                (trace w'))"
  using run setregs_ok
  by (auto simp add: jump_back_stage_def unfold_cases closed_forms jmp_word [OF len] suffix_def
      split: if_splits)

text \<open>On the sample target, at the breakpoint.\<close>

theorem jump_back_stage_result_witness:
  "\<not> fails sample_kernel 0 (PTRACE_SETREGS 1234 ((sample_trap_regs 0x7ffd00001000)\<lparr>rax := 0x401000\<rparr>))
   \<and> jump_back_stage sample_kernel 1234 0x401000
        [0xeb, 0xfe, 0x90, 0x90, 0x90, 0x90, 0x90, 0x90]
        [0x0f, 0x05, 0xff, 0xe0, 0x55, 0x55, 0x55, 0x55]
        (sample_trap_regs 0x7ffd00001000)
        \<lparr>tgt = \<lparr>regs = sample_trap_regs 0x7ffd00001000, mem = sample_mem\<rparr>, trace = [], out = [],
          invalid_len = 0\<rparr>
      = (Inr (sample_trap_regs 0x401000\<lparr>rip := 0x401000\<rparr>),
         \<lparr>tgt = \<lparr>regs = sample_trap_regs 0x401000\<lparr>rip := 0x401000\<rparr>,
                  mem = write8 sample_mem 0x7f1000200006 [0xff, 0xe0, 0xff, 0xe0, 0x55, 0x55, 0x55, 0x55]\<rparr>,
          trace = [PTRACE_SETREGS 1234 (sample_trap_regs 0x401000),
                   PTRACE_POKETEXT 1234 0x7f1000200006
                     (load_le [0xff, 0xe0, 0xff, 0xe0, 0x55, 0x55, 0x55, 0x55]),
                   PTRACE_SINGLESTEP 1234, WAIT, PTRACE_GETREGS 1234],
          out = [], invalid_len = 0\<rparr>)
   \<and> prefix [PTRACE_SETREGS 1234 (sample_trap_regs 0x401000),
              PTRACE_POKETEXT 1234 0x7f1000200006
                (load_le [0xff, 0xe0, 0xff, 0xe0, 0x55, 0x55, 0x55, 0x55]),
              PTRACE_SINGLESTEP 1234]
             [PTRACE_SETREGS 1234 (sample_trap_regs 0x401000),
              PTRACE_POKETEXT 1234 0x7f1000200006
                (load_le [0xff, 0xe0, 0xff, 0xe0, 0x55, 0x55, 0x55, 0x55]),
              PTRACE_SINGLESTEP 1234, WAIT, PTRACE_GETREGS 1234]"
proof -
  have run: "jump_back_stage sample_kernel 1234 0x401000
        [0xeb, 0xfe, 0x90, 0x90, 0x90, 0x90, 0x90, 0x90]
        [0x0f, 0x05, 0xff, 0xe0, 0x55, 0x55, 0x55, 0x55]
        (sample_trap_regs 0x7ffd00001000)
        \<lparr>tgt = \<lparr>regs = sample_trap_regs 0x7ffd00001000, mem = sample_mem\<rparr>, trace = [], out = [],
          invalid_len = 0\<rparr>
      = (Inr (sample_trap_regs 0x401000\<lparr>rip := 0x401000\<rparr>),
         \<lparr>tgt = \<lparr>regs = sample_trap_regs 0x401000\<lparr>rip := 0x401000\<rparr>,
                  mem = write8 sample_mem 0x7f1000200006 [0xff, 0xe0, 0xff, 0xe0, 0x55, 0x55, 0x55, 0x55]\<rparr>,
          trace = [PTRACE_SETREGS 1234 (sample_trap_regs 0x401000),
                   PTRACE_POKETEXT 1234 0x7f1000200006
                     (load_le [0xff, 0xe0, 0xff, 0xe0, 0x55, 0x55, 0x55, 0x55]),
                   PTRACE_SINGLESTEP 1234, WAIT, PTRACE_GETREGS 1234],
          out = [], invalid_len = 0\<rparr>)"
    by (simp add: jump_back_stage_def exec sample_defs sample_trap_regs_def)
  have ok: "\<not> fails sample_kernel (length (trace \<lparr>tgt = \<lparr>regs = sample_trap_regs 0x7ffd00001000, mem = sample_mem\<rparr>, trace = [], out = [], invalid_len = 0\<rparr>))
      (PTRACE_SETREGS 1234 ((sample_trap_regs 0x7ffd00001000)\<lparr>rax := 0x401000\<rparr>))"
    by (simp add: sample_kernel_def)
  have len: "length [0x0f, 0x05, 0xff, 0xe0, 0x55, 0x55, 0x55, 0x55 :: byte] = 8" by simp
  show ?thesis
    using jump_back_stage_result [OF run ok len] run ok
    by (simp add: sample_trap_regs_def sample_regs_def)
qed

text \<open>
  With \<^verbatim>\<open>jmp *%rax\<close> written at the original instruction pointer the property does not
  hold: in the run on the sample target the original instruction pointer is \<open>0x401000\<close>,
  and the \<^verbatim>\<open>jmp\<close> is written at \<open>0x7f1000200006\<close>, where the target has trapped. From the
  trap on, the only write at \<open>0x401000\<close> is that of \<^verbatim>\<open>old_word\<close>.
\<close>

theorem jump_written_at_trap_address:
  "getenv_process sample_kernel 1234 ''FOO'' sample_world =
     Some (Ret 0,
       \<lparr>tgt = \<lparr>regs = sample_regs,
                mem = write8 sample_scratch_mem 0x401000 [0xeb, 0xfe, 0x90, 0x90, 0x90, 0x90, 0x90, 0x90]\<rparr>,
        trace = sample_trace,
        out = [0x62, 0x61, 0x72, 0x0a], invalid_len = 0\<rparr>)
   \<and> rip (regs (tgt sample_world)) = 0x401000
   \<and> take 21 sample_trace = trace (sample_called 0x46 0x4f 0x4f 0x7ffd00001000)
   \<and> drop 21 sample_trace =
       [PTRACE_PEEKDATA 1234 0x7ffd00001000,
        PTRACE_PEEKDATA 1234 0x7ffd00001000,
        PTRACE_SETREGS 1234 (sample_trap_regs 0x401000),
        PTRACE_POKETEXT 1234 0x7f1000200006 (load_le [0xff, 0xe0, 0xff, 0xe0, 0x55, 0x55, 0x55, 0x55]),
        PTRACE_SINGLESTEP 1234, WAIT, PTRACE_GETREGS 1234,
        PTRACE_SETREGS 1234 ((sample_trap_regs 0x401000)\<lparr>rax := 11, rdi := 0x7f1000200000, rsi := 4096, rip := 0x401000\<rparr>),
        PTRACE_SINGLESTEP 1234, WAIT, PTRACE_GETREGS 1234,
        PTRACE_POKETEXT 1234 0x401000 (load_le [0xeb, 0xfe, 0x90, 0x90, 0x90, 0x90, 0x90, 0x90]),
        PTRACE_SETREGS 1234 sample_regs,
        PTRACE_DETACH 1234]
   \<and> rip (sample_trap_regs 0x7ffd00001000) = 0x7f1000200006
   \<and> (0x7f1000200006 :: addr) \<noteq> 0x401000"
  using sample_run
  by (simp add: sample_trace_def sample_world_def sample_regs_def sample_called_def
      sample_mapped_def sample_trap_regs_def)

text \<open>
  C9. Every text write has a length divisible by the word size of eight bytes.
  \<^verbatim>\<open>poke_text\<close> refuses any other length: it returns -1 and changes nothing but the count
  of its messages, so it issues no \<^verbatim>\<open>ptrace\<close> request; for a multiple of eight it leaves
  the count as it was. The loop of line 278 always ends, with a block size that is a
  multiple of eight and holds the trampoline. And every part of the engine that calls
  \<^verbatim>\<open>poke_text\<close> (lines 188, 300, 305, 366, 414 and 435), and \<^verbatim>\<open>getenv_process\<close> as a whole
  when it returns, leave the count as it was: no length that the engine passes is
  refused.
\<close>

theorem poke_text_lengths:
  "(len mod 8 \<noteq> 0 \<longrightarrow>
      poke_text K pid whr new_text old_text len w
        = (- 1, old_text, w\<lparr>invalid_len := invalid_len w + 1\<rparr>))
   \<and> invalid_len (snd (snd (poke_text K pid whr new_text old_text (8 * n) w))) = invalid_len w
   \<and> (\<exists>blocksize. blocksize_loop 32 (length env + 6) = Some blocksize \<and>
         blocksize mod 8 = 0 \<and> length env + 6 \<le> blocksize)
   \<and> invalid_len (snd (mmap_stage K pid oldregs w)) = invalid_len w
   \<and> (\<exists>res w1. call_stage K pid env base_rip old_word new_word mmap_memory newregs w = Some (res, w1)
         \<and> invalid_len w1 = invalid_len w)
   \<and> invalid_len (snd (jump_back_stage K pid base_rip old_word new_word newregs w)) = invalid_len w
   \<and> invalid_len (snd (unmap_stage K pid base_rip old_word oldregs mmap_memory newregs w))
       = invalid_len w
   \<and> invalid_len (snd (fail K pid base_rip old_word w)) = invalid_len w
   \<and> (getenv_process K pid env w = Some (r, w') \<longrightarrow> invalid_len w' = invalid_len w)"
proof (intro conjI)
  show "len mod 8 \<noteq> 0 \<longrightarrow>
      poke_text K pid whr new_text old_text len w
        = (- 1, old_text, w\<lparr>invalid_len := invalid_len w + 1\<rparr>)"
    by (simp add: poke_text_def)
next
  show "invalid_len (snd (snd (poke_text K pid whr new_text old_text (8 * n) w))) = invalid_len w"
    by (rule invalid_len_poke_text) simp
next
  obtain r k where r: "blocksize_loop 32 (length env + 6) = Some r" "length env + 6 \<le> r" "r = 32 * 2 ^ k"
    using blocksize_loop_terminates [of 32 "length env + 6"] by auto
  have "r mod 8 = 0" using r(3) by simp
  with r show "\<exists>blocksize. blocksize_loop 32 (length env + 6) = Some blocksize \<and>
         blocksize mod 8 = 0 \<and> length env + 6 \<le> blocksize" by auto
next
  show "invalid_len (snd (mmap_stage K pid oldregs w)) = invalid_len w"
    by (rule invalid_len_mmap_stage)
next
  obtain res w1 where c: "call_stage K pid env base_rip old_word new_word mmap_memory newregs w = Some (res, w1)"
    using call_stage_returns [of K pid env base_rip old_word new_word mmap_memory newregs w] by auto
  then have "invalid_len w1 = invalid_len w" by (rule invalid_len_call_stage)
  with c show "\<exists>res w1. call_stage K pid env base_rip old_word new_word mmap_memory newregs w = Some (res, w1)
         \<and> invalid_len w1 = invalid_len w" by blast
next
  show "invalid_len (snd (jump_back_stage K pid base_rip old_word new_word newregs w)) = invalid_len w"
    by (rule invalid_len_jump_back_stage)
next
  show "invalid_len (snd (unmap_stage K pid base_rip old_word oldregs mmap_memory newregs w))
       = invalid_len w"
    by (rule invalid_len_unmap_stage)
next
  show "invalid_len (snd (fail K pid base_rip old_word w)) = invalid_len w"
    by (rule invalid_len_fail)
next
  show "getenv_process K pid env w = Some (r, w') \<longrightarrow> invalid_len w' = invalid_len w"
    using invalid_len_getenv_process by blast
qed

text \<open>A length of four is refused; the run on the sample target.\<close>

theorem poke_text_lengths_witness:
  "(4::nat) mod 8 \<noteq> 0
   \<and> poke_text sample_kernel 1234 0x401000 [0x0f, 0x05, 0xff, 0xe0] None 4 sample_world
       = (- 1, None, sample_world\<lparr>invalid_len := 1\<rparr>)
   \<and> getenv_process sample_kernel 1234 ''FOO'' sample_world =
       Some (Ret 0,
         \<lparr>tgt = \<lparr>regs = sample_regs,
                  mem = write8 sample_scratch_mem 0x401000 [0xeb, 0xfe, 0x90, 0x90, 0x90, 0x90, 0x90, 0x90]\<rparr>,
          trace = sample_trace,
          out = [0x62, 0x61, 0x72, 0x0a], invalid_len = 0\<rparr>)
   \<and> invalid_len sample_world = 0"
  using poke_text_lengths [of 4 sample_kernel 1234 "0x401000" "[0x0f, 0x05, 0xff, 0xe0]" None
      sample_world 0 "''FOO''" sample_regs "0x401000" "[]" "[]" 0 sample_regs "Ret 0"
      "\<lparr>tgt = \<lparr>regs = sample_regs,
                  mem = write8 sample_scratch_mem 0x401000 [0xeb, 0xfe, 0x90, 0x90, 0x90, 0x90, 0x90, 0x90]\<rparr>,
          trace = sample_trace,
          out = [0x62, 0x61, 0x72, 0x0a], invalid_len = 0\<rparr>"]
    sample_run
  by (simp add: sample_world_def)

text \<open>
  C10. The scan loop is left if and only if one of its reads succeeds on a four-byte
  word that holds a zero byte: the \<open>k\<close>-th read is the \<open>k\<close>-th system call after the loop
  starts and covers the four bytes from \<open>offs + 4 * k\<close> on. A failed read is taken as
  the word \<open>0xFFFFFFFF\<close>, which does not pass the test of line 342, so a failure never
  ends the loop.
\<close>

theorem scan_loop_terminates_iff:
  "(scan_loop K pid offs w \<noteq> None \<longleftrightarrow>
      (\<exists>k. \<not> fails K (length (trace w) + k) (PTRACE_PEEKDATA pid (offs + 4 * of_nat k)) \<and>
           (\<exists>i<4. mem (tgt w) (offs + 4 * of_nat k + of_nat i) = 0)))
   \<and> fst (peek_uint32 K pid offs w) =
       (if fails K (length (trace w)) (PTRACE_PEEKDATA pid offs) then 0xFFFFFFFF
        else ucast (load_le (read8 (mem (tgt w)) offs) :: 64 word))
   \<and> \<not> end_of_string 0xFFFFFFFF"
proof (intro conjI)
  show "scan_loop K pid offs w \<noteq> None \<longleftrightarrow>
      (\<exists>k. \<not> fails K (length (trace w) + k) (PTRACE_PEEKDATA pid (offs + 4 * of_nat k)) \<and>
           (\<exists>i<4. mem (tgt w) (offs + 4 * of_nat k + of_nat i) = 0))"
  proof
    assume "scan_loop K pid offs w \<noteq> None"
    then obtain r where "scan_loop K pid offs w = Some r" by blast
    then have "\<exists>k. word_ends K pid w offs k" by (rule scan_loop_Some_ends)
    then show "\<exists>k. \<not> fails K (length (trace w) + k) (PTRACE_PEEKDATA pid (offs + 4 * of_nat k)) \<and>
           (\<exists>i<4. mem (tgt w) (offs + 4 * of_nat k + of_nat i) = 0)"
      by (simp add: word_ends_def)
  next
    assume "\<exists>k. \<not> fails K (length (trace w) + k) (PTRACE_PEEKDATA pid (offs + 4 * of_nat k)) \<and>
           (\<exists>i<4. mem (tgt w) (offs + 4 * of_nat k + of_nat i) = 0)"
    then obtain k where "word_ends K pid w offs k" by (auto simp add: word_ends_def)
    then obtain k0 where "word_ends K pid w offs k0" "\<forall>j<k0. \<not> word_ends K pid w offs j"
      using ex_least_word_ends by blast
    then show "scan_loop K pid offs w \<noteq> None"
      by (simp add: scan_loop_first)
  qed
next
  show "fst (peek_uint32 K pid offs w) =
       (if fails K (length (trace w)) (PTRACE_PEEKDATA pid offs) then 0xFFFFFFFF
        else ucast (load_le (read8 (mem (tgt w)) offs) :: 64 word))"
    by (simp add: peek_uint32_eq)
next
  show "\<not> end_of_string 0xFFFFFFFF"
    by (simp add: end_of_string_def)
qed

end
